theory Spec2Isabelle
  imports Main "HOL-Library.Char_ord" "HOL-Library.List_Lexorder"
begin

section \<open>Python values and strings\<close>

text \<open>
  The renderers receive the request data as a Python dictionary
  (\<^verbatim>\<open>Dict[str, Any]\<close>, produced by \<^verbatim>\<open>request.data.dict(...)\<close>). Its values are
  strings, lists, dictionaries with string keys, \<^verbatim>\<open>None\<close>, booleans and integers; the
  request schema has no floating point field, so floats are left out. A dictionary is an
  association list in insertion order, looked up with \<^const>\<open>map_of\<close>.
\<close>

datatype pyval =
    PNone
  | PBool bool
  | PInt int
  | PStr string
  | PList "pyval list"
  | PDict "(string \<times> pyval) list"

text \<open>The backslash cannot be written inside a string literal, so it gets a name.\<close>

abbreviation bs :: char where
  "bs \<equiv> CHR 0x5C"

text \<open>
  \<^verbatim>\<open>text.replace(char, escaped_char)\<close> where \<^verbatim>\<open>char\<close> is a string of one character
  (every key of the table \<^verbatim>\<open>chars\<close> is): each occurrence of the character is replaced,
  from left to right, and the inserted text is not scanned again.
\<close>

definition replace_char :: "char \<Rightarrow> string \<Rightarrow> string \<Rightarrow> string" where
  "replace_char c r s = concat (map (\<lambda>x. if x = c then r else [x]) s)"

section \<open>The escaper (minimalist/helper.py and twocolumn/helper.py, lines 38-60)\<close>

text \<open>
  The table \<^verbatim>\<open>chars\<close> of \<^verbatim>\<open>_escape_latex_special_chars\<close>, in the order the dictionary
  literal lists its items (the order \<^verbatim>\<open>chars.items()\<close> iterates in). The two helper
  classes carry the same table and the same two functions.
\<close>

definition chars :: "(char \<times> string) list" where
  "chars =
    [(CHR ''&'', bs # ''&''),
     (CHR ''%'', bs # ''%''),
     (CHR ''$'', bs # ''$''),
     (CHR ''#'', bs # ''#''),
     (CHR ''_'', bs # ''_''),
     (CHR ''{'', bs # ''{''),
     (CHR ''}'', bs # ''}''),
     (CHR ''~'', bs # ''textasciitilde{}''),
     (CHR ''^'', bs # ''textasciicircum{}''),
     (bs, bs # ''textbackslash{}''),
     (CHR ''<'', bs # ''textless{}''),
     (CHR ''>'', bs # ''textgreater{}'')]"

text \<open>
  The loop \<^verbatim>\<open>for char, escaped_char in chars.items(): text = text.replace(...)\<close>:
  one whole pass over the text for each entry of the table, in turn.
\<close>

definition escape_text :: "string \<Rightarrow> string" where
  "escape_text text = fold (\<lambda>(c, e) t. replace_char c e t) chars text"

text \<open>\<^verbatim>\<open>_escape_latex_special_chars\<close>: a value that is not a string is returned as it is.\<close>

fun escape_latex_special_chars :: "pyval \<Rightarrow> pyval" where
  "escape_latex_special_chars (PStr text) = PStr (escape_text text)"
| "escape_latex_special_chars v = v"

text \<open>
  \<^verbatim>\<open>_escape_latex_special_chars_recursive\<close>: strings are escaped, dictionaries and
  lists are rebuilt with their values escaped (keys are kept), anything else is returned.
\<close>

fun escape_latex_special_chars_recursive :: "pyval \<Rightarrow> pyval" where
  "escape_latex_special_chars_recursive (PStr s) = escape_latex_special_chars (PStr s)"
| "escape_latex_special_chars_recursive (PDict kvs) =
     PDict (map (\<lambda>(k, v). (k, escape_latex_special_chars_recursive v)) kvs)"
| "escape_latex_special_chars_recursive (PList xs) =
     PList (map escape_latex_special_chars_recursive xs)"
| "escape_latex_special_chars_recursive v = v"

section \<open>Exceptions\<close>

text \<open>
  Every exception the modelled code raises is a value; a function that can raise returns
  \<open>error + 'a\<close>, with \<open>Inl\<close> for the exception. The constructors keep the values the
  source interpolates into the message:
  \<^item> \<open>TemplatesDirNotFound d\<close>: \<^verbatim>\<open>FileNotFoundError(f"Templates directory not found: {d}")\<close>;
  \<^item> \<open>CategoryNotFound c\<close>: \<^verbatim>\<open>ValueError(f"Category not found: {c}")\<close>;
  \<^item> \<open>TemplateNotFound t\<close>: \<^verbatim>\<open>ValueError(f"Template not found: {t}")\<close>;
  \<^item> \<open>HelperClassNotFound cls path attrs\<close>: the \<^verbatim>\<open>ValueError\<close> of \<^verbatim>\<open>load_template\<close>,
    with the expected class name, the helper path and the module attributes it lists;
  \<^item> \<open>Raised msg\<close>: an exception of the operating system or of the executed helper module
    (\<^verbatim>\<open>os.listdir\<close>, \<^verbatim>\<open>exec_module\<close>), with its message;
  \<^item> \<open>AttributeError\<close>, \<open>TypeError\<close>: raised by Python itself for \<^verbatim>\<open>.get\<close> on a value
    that is not a dictionary, and for iterating or joining a value that cannot be;
  \<^item> \<open>NameError n\<close>: the global name \<open>n\<close> is not bound;
  \<^item> \<open>CompilationFailed cmd rc out err log\<close>: the \<^verbatim>\<open>RuntimeError\<close> raised for
    \<^verbatim>\<open>CalledProcessError\<close>, with command, return code, stdout, stderr and the log read;
  \<^item> \<open>CompilationTimedOut t\<close>:
    \<^verbatim>\<open>RuntimeError(f"PDF compilation timed out after {t} seconds.")\<close>;
  \<^item> \<open>PdfNotFound path log\<close>: the \<^verbatim>\<open>FileNotFoundError\<close> raised when no PDF was produced.
\<close>

datatype error =
    TemplatesDirNotFound string
  | CategoryNotFound string
  | TemplateNotFound string
  | HelperClassNotFound string string "string list"
  | Raised string
  | AttributeError
  | TypeError
  | NameError string
  | CompilationFailed "string list" int string string string
  | CompilationTimedOut nat
  | PdfNotFound string string

section \<open>String helpers of Python\<close>

definition startswith :: "string \<Rightarrow> string \<Rightarrow> bool" where
  "startswith s p = (take (length p) s = p)"

definition endswith :: "string \<Rightarrow> string \<Rightarrow> bool" where
  "endswith s p = (length p \<le> length s \<and> drop (length s - length p) s = p)"

text \<open>\<^verbatim>\<open>sep.join(xs)\<close> for a list of strings.\<close>

fun join :: "string \<Rightarrow> string list \<Rightarrow> string" where
  "join sep [] = []"
| "join sep [x] = x"
| "join sep (x # y # ys) = x @ sep @ join sep (y # ys)"

text \<open>
  \<^verbatim>\<open>os.path.join\<close> on a POSIX system, for two components; more components are joined
  from the left. A component that starts with a slash replaces what came before it.
\<close>

definition path_join :: "string \<Rightarrow> string \<Rightarrow> string" where
  "path_join a b =
     (if startswith b ''/'' then b
      else if a = [] \<or> endswith a ''/'' then a @ b
      else a @ ''/'' @ b)"

text \<open>
  \<^verbatim>\<open>str.capitalize\<close>, \<^verbatim>\<open>str.upper\<close> and \<^verbatim>\<open>str.lower\<close> on ASCII text: the letters
  \<open>a\<close> to \<open>z\<close> (codes 97 to 122) and \<open>A\<close> to \<open>Z\<close> (codes 65 to 90) change case, every
  other character is kept. Template and category names are directory names of the
  repository, which are ASCII.
\<close>

definition upper_char :: "char \<Rightarrow> char" where
  "upper_char c = (let n = (of_char c :: nat) in if 97 \<le> n \<and> n \<le> 122 then char_of (n - 32) else c)"

definition lower_char :: "char \<Rightarrow> char" where
  "lower_char c = (let n = (of_char c :: nat) in if 65 \<le> n \<and> n \<le> 90 then char_of (n + 32) else c)"

fun capitalize :: "string \<Rightarrow> string" where
  "capitalize [] = []"
| "capitalize (c # cs) = upper_char c # map lower_char cs"

text \<open>\<^verbatim>\<open>s.split(sep)\<close> for a separator of one character; the empty string gives \<^verbatim>\<open>['']\<close>.\<close>

fun split_char :: "char \<Rightarrow> string \<Rightarrow> string list" where
  "split_char sep [] = [[]]"
| "split_char sep (c # cs) =
     (if c = sep then [] # split_char sep cs
      else (case split_char sep cs of
              [] \<Rightarrow> [[c]]
            | w # ws \<Rightarrow> (c # w) # ws))"

text \<open>
  Assignment \<^verbatim>\<open>d[k] = v\<close> on a dictionary kept in insertion order: an existing key keeps
  its place and takes the new value, a new key goes to the end.
\<close>

fun dict_set :: "'k \<Rightarrow> 'v \<Rightarrow> ('k \<times> 'v) list \<Rightarrow> ('k \<times> 'v) list" where
  "dict_set k v [] = [(k, v)]"
| "dict_set k v ((k', v') # kvs) =
     (if k = k' then (k, v) # kvs else (k', v') # dict_set k v kvs)"

section \<open>The template manager (templates/template_manager.py)\<close>

text \<open>
  What the manager reads from the operating system: \<^verbatim>\<open>os.path.exists\<close>,
  \<^verbatim>\<open>os.path.isdir\<close> and \<^verbatim>\<open>os.listdir\<close> (which raises on a path it cannot list).
\<close>

record filesystem =
  path_exists :: "string \<Rightarrow> bool"
  path_isdir :: "string \<Rightarrow> bool"
  listdir :: "string \<Rightarrow> error + string list"

type_synonym catalog = "(string \<times> string list) list"

text \<open>
  The state shared by all instances in one process: the class attribute
  \<^verbatim>\<open>TemplateManager._cached_templates\<close> (\<open>None\<close> until a scan completes), and a counter of
  the calls \<^verbatim>\<open>os.listdir(self.templates_dir)\<close> of line 40, the one call every scan of
  the templates directory starts with. The counter is an observer added to the model, as
  the mock of \<^verbatim>\<open>test_caching_of_discovered_templates\<close> is to the code.
\<close>

record process =
  cached_templates :: "catalog option"
  scans :: nat

text \<open>The inner loop of \<^verbatim>\<open>_discover_templates\<close> (lines 50-62), over the entries of one category.\<close>

fun scan_category :: "filesystem \<Rightarrow> string \<Rightarrow> string list \<Rightarrow> string list \<Rightarrow> error + string list" where
  "scan_category fs category_path [] found = Inr found"
| "scan_category fs category_path (template_name # rest) found =
     (let template_path = path_join category_path template_name in
      if \<not> path_isdir fs template_path \<or> startswith template_name ''__''
      then scan_category fs category_path rest found
      else (case listdir fs template_path of
              Inl e \<Rightarrow> Inl e
            | Inr files \<Rightarrow>
                (let helper_path = path_join template_path ''helper.py'';
                     tex_files = filter (\<lambda>f. endswith f ''.tex'') files
                 in if path_exists fs helper_path \<and> tex_files \<noteq> []
                    then scan_category fs category_path rest (found @ [template_name])
                    else scan_category fs category_path rest found)))"

text \<open>The outer loop (lines 40-62), over the entries of the templates directory.\<close>

fun scan_root :: "filesystem \<Rightarrow> string \<Rightarrow> string list \<Rightarrow> catalog \<Rightarrow> error + catalog" where
  "scan_root fs templates_dir [] templates = Inr templates"
| "scan_root fs templates_dir (category # rest) templates =
     (let category_path = path_join templates_dir category in
      if \<not> path_isdir fs category_path \<or> startswith category ''__''
      then scan_root fs templates_dir rest templates
      else (case listdir fs category_path of
              Inl e \<Rightarrow> Inl e
            | Inr names \<Rightarrow>
                (case scan_category fs category_path names [] of
                   Inl e \<Rightarrow> Inl e
                 | Inr found \<Rightarrow> scan_root fs templates_dir rest (dict_set category found templates))))"

text \<open>
  \<^verbatim>\<open>_discover_templates\<close>. An exception leaves the cache as it was: the assignment of
  line 64 is reached only when both loops have finished.
\<close>

definition discover_templates :: "filesystem \<Rightarrow> string \<Rightarrow> process \<Rightarrow> (error + catalog) \<times> process" where
  "discover_templates fs templates_dir p =
     (case cached_templates p of
        Some cached \<Rightarrow> (Inr cached, p)
      | None \<Rightarrow>
          if \<not> path_exists fs templates_dir
          then (Inl (TemplatesDirNotFound templates_dir), p)
          else (let p1 = p\<lparr>scans := scans p + 1\<rparr> in
                case listdir fs templates_dir of
                  Inl e \<Rightarrow> (Inl e, p1)
                | Inr categories \<Rightarrow>
                    (case scan_root fs templates_dir categories [] of
                       Inl e \<Rightarrow> (Inl e, p1)
                     | Inr templates \<Rightarrow> (Inr templates, p1\<lparr>cached_templates := Some templates\<rparr>))))"

text \<open>
  \<^verbatim>\<open>get_available_templates\<close> returns the whole catalog, or the list of one category.
  \<^verbatim>\<open>if category:\<close> is false for \<^verbatim>\<open>None\<close> and for the empty string.
\<close>

datatype templates_result = AllTemplates catalog | CategoryTemplates "string list"

definition get_available_templates ::
  "filesystem \<Rightarrow> string \<Rightarrow> string option \<Rightarrow> process \<Rightarrow> (error + templates_result) \<times> process" where
  "get_available_templates fs templates_dir category p =
     (case discover_templates fs templates_dir p of
        (Inl e, p') \<Rightarrow> (Inl e, p')
      | (Inr discovered_templates, p') \<Rightarrow>
          (case category of
             None \<Rightarrow> (Inr (AllTemplates discovered_templates), p')
           | Some c \<Rightarrow>
               if c = [] then (Inr (AllTemplates discovered_templates), p')
               else (case map_of discovered_templates c of
                       None \<Rightarrow> (Inl (CategoryNotFound c), p')
                     | Some names \<Rightarrow> (Inr (CategoryTemplates names), p'))))"

text \<open>
  An instance, and its constructor \<^verbatim>\<open>__init__\<close>, which stores what
  \<^verbatim>\<open>self.get_available_templates()\<close> returns.
\<close>

record template_manager =
  templates_dir :: string
  available_templates :: templates_result

definition init :: "filesystem \<Rightarrow> string \<Rightarrow> process \<Rightarrow> (error + template_manager) \<times> process" where
  "init fs dir p =
     (case get_available_templates fs dir None p of
        (Inl e, p') \<Rightarrow> (Inl e, p')
      | (Inr r, p') \<Rightarrow> (Inr \<lparr>templates_dir = dir, available_templates = r\<rparr>, p'))"

text \<open>
  The class name \<^verbatim>\<open>load_template\<close> looks for (lines 117-125).
\<close>

definition expected_class_name :: "string \<Rightarrow> string \<Rightarrow> string" where
  "expected_class_name category template_name =
     (let category_camel_case =
            (if CHR ''_'' \<in> set category
             then concat (map capitalize (split_char (CHR ''_'') category))
             else capitalize category)
      in capitalize template_name @ category_camel_case @ ''Helper'')"

text \<open>
  A loaded module is the list of its attributes. \<^verbatim>\<open>dir(module)\<close> is the sorted list of
  their names. Executing the helper file (\<^verbatim>\<open>spec_from_file_location\<close>,
  \<^verbatim>\<open>module_from_spec\<close>, \<^verbatim>\<open>exec_module\<close>) is the parameter \<open>exec_module\<close>, from the
  module name and the path to the module or the exception raised.
\<close>

type_synonym 'c module = "(string \<times> 'c) list"

definition dir_module :: "'c module \<Rightarrow> string list" where
  "dir_module m = sort (remdups (map fst m))"

text \<open>
  \<^verbatim>\<open>load_template\<close>. \<^verbatim>\<open>self.get_available_templates()\<close> is called with no category, so
  what it returns is the catalog of \<^const>\<open>discover_templates\<close> (lemma
  \<open>get_available_templates_None\<close> below).
\<close>

definition load_template ::
  "filesystem \<Rightarrow> (string \<Rightarrow> string \<Rightarrow> error + 'c module) \<Rightarrow> template_manager
     \<Rightarrow> string \<Rightarrow> string \<Rightarrow> process \<Rightarrow> (error + 'c) \<times> process" where
  "load_template fs exec_module self category template_name p =
     (case discover_templates fs (templates_dir self) p of
        (Inl e, p') \<Rightarrow> (Inl e, p')
      | (Inr current_available_templates, p') \<Rightarrow>
          (case map_of current_available_templates category of
             None \<Rightarrow> (Inl (CategoryNotFound category), p')
           | Some names \<Rightarrow>
               if template_name \<notin> set names then (Inl (TemplateNotFound template_name), p')
               else
                 (let helper_path =
                        path_join (path_join (path_join (templates_dir self) category) template_name)
                          ''helper.py''
                  in case exec_module (category @ ''_'' @ template_name) helper_path of
                       Inl e \<Rightarrow> (Inl e, p')
                     | Inr m \<Rightarrow>
                         (let expected = expected_class_name category template_name in
                          case map_of m expected of
                            Some template_class \<Rightarrow> (Inr template_class, p')
                          | None \<Rightarrow>
                              (Inl (HelperClassNotFound expected helper_path
                                      (filter (\<lambda>name. \<not> startswith name ''_'') (dir_module m))),
                               p')))))"

section \<open>Reading the data tree\<close>

text \<open>Truth value of a Python value, as \<^verbatim>\<open>if x:\<close> and \<^verbatim>\<open>if not x:\<close> test it.\<close>

fun truthy :: "pyval \<Rightarrow> bool" where
  "truthy PNone = False"
| "truthy (PBool b) = b"
| "truthy (PInt i) = (i \<noteq> 0)"
| "truthy (PStr s) = (s \<noteq> [])"
| "truthy (PList xs) = (xs \<noteq> [])"
| "truthy (PDict kvs) = (kvs \<noteq> [])"

text \<open>\<^verbatim>\<open>d.get(key, default)\<close> on the items of a dictionary.\<close>

definition dict_get :: "(string \<times> pyval) list \<Rightarrow> string \<Rightarrow> pyval \<Rightarrow> pyval" where
  "dict_get kvs key dflt = (case map_of kvs key of Some v \<Rightarrow> v | None \<Rightarrow> dflt)"

text \<open>
  What a \<^verbatim>\<open>for\<close> loop or a comprehension iterates over: the elements of a list, the
  characters of a string (each a string of length one), the keys of a dictionary.
  \<^verbatim>\<open>None\<close>, booleans and integers are not iterable: \<^verbatim>\<open>TypeError\<close>.
\<close>

fun py_iter :: "pyval \<Rightarrow> error + pyval list" where
  "py_iter (PList xs) = Inr xs"
| "py_iter (PStr s) = Inr (map (\<lambda>c. PStr [c]) s)"
| "py_iter (PDict kvs) = Inr (map (\<lambda>kv. PStr (fst kv)) kvs)"
| "py_iter v = Inl TypeError"

text \<open>
  A replacement field \<^verbatim>\<open>{v}\<close> of an f-string: a string is inserted as it is, any other
  value through Python's \<^verbatim>\<open>str()\<close>, which is the parameter \<open>str_of\<close>.
\<close>

definition fmt :: "(pyval \<Rightarrow> string) \<Rightarrow> pyval \<Rightarrow> string" where
  "fmt str_of v = (case v of PStr s \<Rightarrow> s | _ \<Rightarrow> str_of v)"

text \<open>Running a loop body that can raise over a list: the first exception ends the loop.\<close>

fun map_err :: "('a \<Rightarrow> error + 'b) \<Rightarrow> 'a list \<Rightarrow> error + 'b list" where
  "map_err f [] = Inr []"
| "map_err f (x # xs) =
     (case f x of
        Inl e \<Rightarrow> Inl e
      | Inr y \<Rightarrow> (case map_err f xs of Inl e \<Rightarrow> Inl e | Inr ys \<Rightarrow> Inr (y # ys)))"

text \<open>
  \<^verbatim>\<open>sep.join(v)\<close> for a Python value: \<open>v\<close> must be iterable and every item a string,
  otherwise \<^verbatim>\<open>TypeError\<close>.
\<close>

definition py_join :: "string \<Rightarrow> pyval \<Rightarrow> error + string" where
  "py_join sep v =
     (case py_iter v of
        Inl e \<Rightarrow> Inl e
      | Inr items \<Rightarrow>
          (case map_err (\<lambda>x. case x of PStr s \<Rightarrow> Inr s | _ \<Rightarrow> Inl TypeError) items of
             Inl e \<Rightarrow> Inl e
           | Inr strs \<Rightarrow> Inr (join sep strs)))"

section \<open>The LaTeX renderers (templates/resume/minimalist and twocolumn, helper.py)\<close>

text \<open>
  What both constructors do with \<open>data\<close> (lines 20 and 21): \<^verbatim>\<open>self.data\<close> is the
  escaped copy of the dictionary passed in.
\<close>

definition helper_data :: "(string \<times> pyval) list \<Rightarrow> (string \<times> pyval) list" where
  "helper_data data =
     (case escape_latex_special_chars_recursive (PDict data) of
        PDict kvs \<Rightarrow> kvs
      | _ \<Rightarrow> [])"

text \<open>The text \<^verbatim>\<open>"            \\item "\<close> in front of every detail: twelve spaces.\<close>

definition item_prefix :: string where
  "item_prefix = ''            '' @ bs # ''item ''"

text \<open>
  Minimalist, the body of the loop of \<^verbatim>\<open>_generate_experience_section\<close> (lines 98-109)
  for one entry \<open>exp\<close>. \<^verbatim>\<open>exp.get\<close> raises \<^verbatim>\<open>AttributeError\<close> when \<open>exp\<close> is not
  a dictionary.
\<close>

fun minimalist_experience_entry :: "(pyval \<Rightarrow> string) \<Rightarrow> pyval \<Rightarrow> error + string" where
  "minimalist_experience_entry str_of (PDict exp) =
     (let company = dict_get exp ''company'' (PStr []);
          title = dict_get exp ''title'' (PStr []);
          dates = fmt str_of (dict_get exp ''startDate'' (PStr [])) @ '' -- ''
                    @ fmt str_of (dict_get exp ''endDate'' (PStr ''Present''));
          location = dict_get exp ''location'' (PStr []);
          details_list = dict_get exp ''details'' (PList [])
      in case (if truthy details_list
               then (case py_iter details_list of
                       Inl e \<Rightarrow> Inl e
                     | Inr details \<Rightarrow>
                         Inr (join ''\<newline>''
                                (map (\<lambda>detail. item_prefix @ fmt str_of (escape_latex_special_chars detail))
                                   details)))
               else Inr [])
         of Inl e \<Rightarrow> Inl e
          | Inr details_latex \<Rightarrow>
              Inr (bs # ''experienceentry{'' @ fmt str_of company @ ''}{'' @ fmt str_of title
                     @ ''}{'' @ dates @ ''}{'' @ fmt str_of location @ ''}{\<newline>''
                     @ details_latex @ ''\<newline>        }''))"
| "minimalist_experience_entry str_of v = Inl AttributeError"

text \<open>
  Minimalist \<^verbatim>\<open>_generate_experience_section\<close>, on \<^verbatim>\<open>self.data\<close>.
\<close>

definition minimalist_generate_experience_section ::
  "(pyval \<Rightarrow> string) \<Rightarrow> (string \<times> pyval) list \<Rightarrow> error + string" where
  "minimalist_generate_experience_section str_of self_data =
     (let experiences = dict_get self_data ''experience'' (PList []) in
      if \<not> truthy experiences then Inr []
      else (case py_iter experiences of
              Inl e \<Rightarrow> Inl e
            | Inr exps \<Rightarrow>
                (case map_err (minimalist_experience_entry str_of) exps of
                   Inl e \<Rightarrow> Inl e
                 | Inr entries \<Rightarrow>
                     Inr (join ''\<newline>'' ((bs # ''section*{Experience}'') # entries)))))"

text \<open>
  Twocolumn, the body of the experience loop of \<^verbatim>\<open>_generate_right_column_content\<close>
  (lines 120-126). The details are iterated without a test first, and inserted as they
  are.
\<close>

fun twocolumn_experience_entry :: "(pyval \<Rightarrow> string) \<Rightarrow> pyval \<Rightarrow> error + string" where
  "twocolumn_experience_entry str_of (PDict exp) =
     (let title = dict_get exp ''title'' (PStr []);
          company = dict_get exp ''company'' (PStr []);
          dates = fmt str_of (dict_get exp ''startDate'' (PStr [])) @ '' -- ''
                    @ fmt str_of (dict_get exp ''endDate'' (PStr ''Present''));
          location = dict_get exp ''location'' (PStr []);
          details_list = dict_get exp ''details'' (PList [])
      in case py_iter details_list of
           Inl e \<Rightarrow> Inl e
         | Inr details \<Rightarrow>
             (let details_latex =
                    join ''\<newline>'' (map (\<lambda>detail. item_prefix @ fmt str_of detail) details)
              in Inr (bs # ''experienceentryright{'' @ fmt str_of title @ ''}{'' @ fmt str_of company
                        @ ''}{'' @ dates @ ''}{'' @ fmt str_of location @ ''}{\<newline>''
                        @ details_latex @ ''\<newline>        }'')))"
| "twocolumn_experience_entry str_of v = Inl AttributeError"

text \<open>Twocolumn, the body of the projects loop (lines 133-136).\<close>

fun twocolumn_project_entry :: "(pyval \<Rightarrow> string) \<Rightarrow> pyval \<Rightarrow> error + string" where
  "twocolumn_project_entry str_of (PDict proj) =
     (let name = dict_get proj ''name'' (PStr []) in
      case py_join '', '' (dict_get proj ''technologies'' (PList [])) of
        Inl e \<Rightarrow> Inl e
      | Inr technologies \<Rightarrow>
          (let description = dict_get proj ''description'' (PStr []) in
           Inr (bs # ''projectsentryright{'' @ fmt str_of name @ ''}{'' @ technologies
                  @ ''}{'' @ fmt str_of description @ ''}'')))"
| "twocolumn_project_entry str_of v = Inl AttributeError"

text \<open>
  Twocolumn \<^verbatim>\<open>_generate_right_column_content\<close>, on \<^verbatim>\<open>self.data\<close>: summary,
  experience, projects, joined by blank lines.
\<close>

definition twocolumn_generate_right_column_content ::
  "(pyval \<Rightarrow> string) \<Rightarrow> (string \<times> pyval) list \<Rightarrow> error + string" where
  "twocolumn_generate_right_column_content str_of self_data =
     (let summary_text = dict_get self_data ''professional_summary'' (PStr []);
          content1 = (if truthy summary_text
                      then [bs # ''summarysectioncontent{'' @ fmt str_of summary_text @ ''}'']
                      else []);
          experiences = dict_get self_data ''experience'' (PList [])
      in case (if truthy experiences
               then (case py_iter experiences of
                       Inl e \<Rightarrow> Inl e
                     | Inr exps \<Rightarrow>
                         (case map_err (twocolumn_experience_entry str_of) exps of
                            Inl e \<Rightarrow> Inl e
                          | Inr entries \<Rightarrow> Inr (content1 @ (bs # ''section*{Experience}'') # entries)))
               else Inr content1)
         of Inl e \<Rightarrow> Inl e
          | Inr content2 \<Rightarrow>
              (let projects = dict_get self_data ''projects'' (PList []) in
               case (if truthy projects
                     then (case py_iter projects of
                             Inl e \<Rightarrow> Inl e
                           | Inr projs \<Rightarrow>
                               (case map_err (twocolumn_project_entry str_of) projs of
                                  Inl e \<Rightarrow> Inl e
                                | Inr entries \<Rightarrow> Inr (content2 @ (bs # ''section*{Projects}'') # entries)))
                     else Inr content2)
               of Inl e \<Rightarrow> Inl e
                | Inr content3 \<Rightarrow> Inr (join ''\<newline>\<newline>'' content3)))"

section \<open>The DOCX generator (core/docx_generator.py)\<close>

text \<open>
  The calls made on the document builder, in order: \<^verbatim>\<open>add_heading(text, level)\<close>,
  \<^verbatim>\<open>add_paragraph(text, style)\<close> (no text is the empty string, no style is \<open>None\<close>) and
  \<^verbatim>\<open>add_run(text)\<close> on the last paragraph, with its italic flag. The text argument is
  kept as the Python value passed.
\<close>

datatype docx_op =
    AddHeading pyval nat
  | AddParagraph pyval "string option"
  | AddRun pyval bool

text \<open>The separator of the dates is an en dash (U+2013, three bytes in UTF-8) between two spaces.\<close>

definition en_dash_sep :: string where
  "en_dash_sep = [CHR '' '', CHR 0xE2, CHR 0x80, CHR 0x93, CHR '' '']"

text \<open>\<^verbatim>\<open>_format_experience_item\<close> (lines 15-38).\<close>

fun format_experience_item :: "(pyval \<Rightarrow> string) \<Rightarrow> pyval \<Rightarrow> error + docx_op list" where
  "format_experience_item str_of (PDict exp) =
     (let heading = [AddHeading (dict_get exp ''company'' (PStr ''N/A Company'')) 2];
          title = fmt str_of (dict_get exp ''title'' (PStr ''N/A Title''));
          dates = (if truthy (dict_get exp ''startDate'' PNone) then [dict_get exp ''startDate'' PNone] else [])
                  @ (if truthy (dict_get exp ''endDate'' PNone) then [dict_get exp ''endDate'' PNone] else [])
      in case (if dates \<noteq> []
               then (case py_join en_dash_sep (PList dates) of
                       Inl e \<Rightarrow> Inl e
                     | Inr joined \<Rightarrow> Inr (title @ '' ('' @ joined @ '')''))
               else Inr title)
         of Inl e \<Rightarrow> Inl e
          | Inr title_dates \<Rightarrow>
              (let p_title = [AddParagraph (PStr title_dates) None]
                     @ (if truthy (dict_get exp ''location'' PNone)
                        then [AddRun (PStr ('' | '' @ fmt str_of (dict_get exp ''location'' PNone))) True]
                        else []);
                   details = dict_get exp ''details'' (PList []);
                   bullets = (case details of
                                PList ds \<Rightarrow> map (\<lambda>detail. AddParagraph (PStr (fmt str_of detail)) (Some ''ListBullet'')) ds
                              | PStr s \<Rightarrow> [AddParagraph (PStr s) (Some ''ListBullet'')]
                              | _ \<Rightarrow> [])
               in Inr (heading @ p_title @ bullets @ [AddParagraph (PStr []) None])))"
| "format_experience_item str_of v = Inl AttributeError"

section \<open>Export to PDF (export_to_pdf of both helpers)\<close>

text \<open>
  The outcome of one \<^verbatim>\<open>subprocess.run(compile_cmd, check=True, ..., timeout=30)\<close>: the
  compiler exited with a return code, stdout and stderr, or the timeout expired.
  \<^verbatim>\<open>check=True\<close> raises \<^verbatim>\<open>CalledProcessError\<close> for a return code other than zero.
\<close>

datatype pass_result = Exited int string string | Expired

text \<open>
  What the external compiler does with a source text: the outcome of the first and of
  the second pass, and what the scratch directory holds when the code looks at it, the log
  \<^verbatim>\<open>resume.log\<close> and the binary \<^verbatim>\<open>resume.pdf\<close> (\<open>None\<close> when the file does not exist).
\<close>

record compiler_run =
  first_pass :: pass_result
  second_pass :: pass_result
  log_file :: "string option"
  pdf_file :: "string option"

datatype renderer = Minimalist | Twocolumn

text \<open>
  Whether the global name \<^verbatim>\<open>shutil\<close> is bound when \<^verbatim>\<open>export_to_pdf\<close> runs.
  twocolumn/helper.py imports it at the top of the file (line 5). minimalist/helper.py
  imports it only inside \<^verbatim>\<open>if __name__ == '__main__':\<close> (line 274), so there it is
  bound only when the file runs as a script; \<^verbatim>\<open>load_template\<close> executes the file under
  the module name \<^verbatim>\<open>f"{category}_{template_name}"\<close>.
\<close>

definition shutil_bound :: "renderer \<Rightarrow> string \<Rightarrow> bool" where
  "shutil_bound r module_name =
     (case r of Twocolumn \<Rightarrow> True | Minimalist \<Rightarrow> module_name = ''__main__'')"

text \<open>
  The handlers of the \<^verbatim>\<open>try\<close> block: the log is read when the file exists, and is the
  empty string otherwise.
\<close>

definition read_log :: "compiler_run \<Rightarrow> string" where
  "read_log run = (case log_file run of None \<Rightarrow> [] | Some l \<Rightarrow> l)"

text \<open>One pass under the two \<^verbatim>\<open>except\<close> clauses: the exception raised, if any.\<close>

definition checked_pass :: "string list \<Rightarrow> compiler_run \<Rightarrow> pass_result \<Rightarrow> error option" where
  "checked_pass compile_cmd run r =
     (case r of
        Exited rc out err \<Rightarrow>
          if rc \<noteq> 0 then Some (CompilationFailed compile_cmd rc out err (read_log run)) else None
      | Expired \<Rightarrow> Some (CompilationTimedOut 30))"

text \<open>
  \<^verbatim>\<open>export_to_pdf\<close>, from the generated source on: \<open>pdflatex\<close> is the external compiler,
  \<open>tmpdir\<close> the scratch directory, \<open>disk\<close> the files outside it (path to content). The
  second pass runs only when the first has succeeded. Creating the directory of
  \<open>output_path\<close> is left out.
\<close>

definition export_to_pdf ::
  "renderer \<Rightarrow> string \<Rightarrow> (string \<Rightarrow> compiler_run) \<Rightarrow> string \<Rightarrow> string
     \<Rightarrow> (string \<rightharpoonup> string) \<Rightarrow> string \<Rightarrow> (error + string) \<times> (string \<rightharpoonup> string)" where
  "export_to_pdf r module_name pdflatex tmpdir latex_content disk output_path =
     (let tex_file_path = path_join tmpdir ''resume.tex'';
          compile_cmd = [''pdflatex'', ''-interaction=nonstopmode'',
                         ''-output-directory='' @ tmpdir, tex_file_path];
          run = pdflatex latex_content
      in case checked_pass compile_cmd run (first_pass run) of
           Some e \<Rightarrow> (Inl e, disk)
         | None \<Rightarrow>
             (case checked_pass compile_cmd run (second_pass run) of
                Some e \<Rightarrow> (Inl e, disk)
              | None \<Rightarrow>
                  (let generated_pdf_path = path_join tmpdir ''resume.pdf'' in
                   case pdf_file run of
                     Some pdf \<Rightarrow>
                       if shutil_bound r module_name
                       then (Inr output_path, disk(output_path \<mapsto> pdf))
                       else (Inl (NameError ''shutil''), disk)
                   | None \<Rightarrow> (Inl (PdfNotFound generated_pdf_path (read_log run)), disk))))"

text \<open>The diagnostic log an exception of \<^const>\<open>export_to_pdf\<close> carries in its message, if any.\<close>

fun carried_log :: "error \<Rightarrow> string option" where
  "carried_log (CompilationFailed cmd rc out err log) = Some log"
| "carried_log (PdfNotFound path log) = Some log"
| "carried_log e = None"

section \<open>The pipeline (api/app.py, generate_document)\<close>

datatype document_type = RESUME | COVER_LETTER

datatype output_format = PDF | DOCX

text \<open>The string value of the enumeration, which is what the catalog is indexed with.\<close>

fun document_type_value :: "document_type \<Rightarrow> string" where
  "document_type_value RESUME = ''resume''"
| "document_type_value COVER_LETTER = ''cover_letter''"

text \<open>
  A validated request: \<open>person\<close> is \<^verbatim>\<open>request.data.personalInfo.name\<close> and \<open>data\<close> the
  dictionary \<^verbatim>\<open>request.data.dict(exclude_unset=True)\<close> handed to the renderer.
\<close>

record request =
  document_type :: document_type
  template :: string
  format :: output_format
  person :: string
  data :: "(string \<times> pyval) list"
  clean_up :: bool

text \<open>
  The \<^verbatim>\<open>HTTPException\<close>s of \<^verbatim>\<open>generate_document\<close>, with the values their detail
  interpolates, and their status codes.
\<close>

datatype http_exception =
    DocumentTypeNotSupported document_type "string list"
  | TemplateNotFoundFor string document_type "string list"
  | PdfGenerationError error
  | DocxOnlyForResumes
  | DocxGenerationError error
  | InternalError error

fun status_code :: "http_exception \<Rightarrow> nat" where
  "status_code (DocumentTypeNotSupported t ks) = 404"
| "status_code (TemplateNotFoundFor n t ns) = 404"
| "status_code (PdfGenerationError e) = 500"
| "status_code DocxOnlyForResumes = 400"
| "status_code (DocxGenerationError e) = 500"
| "status_code (InternalError e) = 500"

text \<open>\<^verbatim>\<open>FileResponse(output_path, media_type=..., filename=...)\<close>.\<close>

datatype response = FileResponse string string string

text \<open>
  The state the handler works on: the process state of the template manager, the files on
  disk (path to content) and the background tasks added (each removes one path).
\<close>

record server =
  proc :: process
  disk :: "string \<rightharpoonup> string"
  background_tasks :: "string list"

text \<open>
  What the handler calls outside itself:
  \<^item> \<open>templates_fs\<close>, the directory tree the template manager scans;
  \<^item> \<open>mktemp\<close>, the path \<^verbatim>\<open>tempfile.NamedTemporaryFile(suffix=..., delete=False)\<close> creates,
    from the files present and the suffix;
  \<^item> \<open>render_pdf\<close>, the two calls \<^verbatim>\<open>create_template\<close> and \<^verbatim>\<open>export_to_pdf\<close> of the
    \<^verbatim>\<open>try\<close> block, from category, template, data, output path and disk to the
    exception raised (or none) and the disk left;
  \<^item> \<open>render_docx\<close>, \<^verbatim>\<open>generate_resume_docx\<close>, likewise.
\<close>

record environment =
  templates_fs :: filesystem
  mktemp :: "(string \<rightharpoonup> string) \<Rightarrow> string \<Rightarrow> string"
  render_pdf :: "string \<Rightarrow> string \<Rightarrow> (string \<times> pyval) list \<Rightarrow> string
                   \<Rightarrow> (string \<rightharpoonup> string) \<Rightarrow> error option \<times> (string \<rightharpoonup> string)"
  render_docx :: "(string \<times> pyval) list \<Rightarrow> string
                    \<Rightarrow> (string \<rightharpoonup> string) \<Rightarrow> error option \<times> (string \<rightharpoonup> string)"

text \<open>
  The \<^verbatim>\<open>except\<close> clause of both \<^verbatim>\<open>try\<close> blocks (lines 196-198 and 216-218):
  \<^verbatim>\<open>if os.path.exists(output_path): os.remove(output_path)\<close>.
\<close>

definition cleanup :: "string \<Rightarrow> (string \<rightharpoonup> string) \<Rightarrow> (string \<rightharpoonup> string)" where
  "cleanup output_path d = (if output_path \<in> dom d then d(output_path := None) else d)"

text \<open>The common return (lines 226-233).\<close>

definition respond :: "request \<Rightarrow> string \<Rightarrow> string \<Rightarrow> string \<Rightarrow> server \<Rightarrow> (http_exception + response) \<times> server" where
  "respond req output_path media_type filename s =
     (Inr (FileResponse output_path media_type filename),
      if clean_up req then s\<lparr>background_tasks := background_tasks s @ [output_path]\<rparr> else s)"

text \<open>
  \<^verbatim>\<open>generate_document\<close>. The manager is built with the default directory
  \<^verbatim>\<open>"templates"\<close>; an exception of its constructor reaches the last \<^verbatim>\<open>except\<close> clause
  (status 500). The checks repeated at the start of the PDF branch (lines 171-180) test
  what has been tested already and cannot fail there.
\<close>

definition generate_document :: "environment \<Rightarrow> request \<Rightarrow> server \<Rightarrow> (http_exception + response) \<times> server" where
  "generate_document env req s =
     (case init (templates_fs env) ''templates'' (proc s) of
        (Inl e, p1) \<Rightarrow> (Inl (InternalError e), s\<lparr>proc := p1\<rparr>)
      | (Inr template_manager, p1) \<Rightarrow>
          (case discover_templates (templates_fs env) (templates_dir template_manager) p1 of
             (Inl e, p2) \<Rightarrow> (Inl (InternalError e), s\<lparr>proc := p2\<rparr>)
           | (Inr available, p2) \<Rightarrow>
               (let s1 = s\<lparr>proc := p2\<rparr>;
                    doc = document_type_value (document_type req)
                in case map_of available doc of
                     None \<Rightarrow>
                       (Inl (DocumentTypeNotSupported (document_type req) (map fst available)), s1)
                   | Some names \<Rightarrow>
                       if template req \<notin> set names
                       then (Inl (TemplateNotFoundFor (template req) (document_type req) names), s1)
                       else
                         (let person_name =
                                (if person req \<noteq> [] then replace_char (CHR '' '') ''_'' (person req)
                                 else ''output'')
                          in case format req of
                               PDF \<Rightarrow>
                                 (let output_path = mktemp env (disk s1) ''.pdf'';
                                      d1 = (disk s1)(output_path \<mapsto> [])
                                  in case render_pdf env doc (template req) (data req) output_path d1 of
                                       (Some e, d2) \<Rightarrow>
                                         (Inl (PdfGenerationError e), s1\<lparr>disk := cleanup output_path d2\<rparr>)
                                     | (None, d2) \<Rightarrow>
                                         respond req output_path ''application/pdf''
                                           (doc @ ''_'' @ person_name @ ''.pdf'') (s1\<lparr>disk := d2\<rparr>))
                             | DOCX \<Rightarrow>
                                 if document_type req = COVER_LETTER
                                 then (Inl DocxOnlyForResumes, s1)
                                 else
                                   (let output_path = mktemp env (disk s1) ''.docx'';
                                        d1 = (disk s1)(output_path \<mapsto> [])
                                    in case render_docx env (data req) output_path d1 of
                                         (Some e, d2) \<Rightarrow>
                                           (Inl (DocxGenerationError e), s1\<lparr>disk := cleanup output_path d2\<rparr>)
                                       | (None, d2) \<Rightarrow>
                                           respond req output_path
                                             ''application/vnd.openxmlformats-officedocument.wordprocessingml.document''
                                             (''resume_'' @ person_name @ ''.docx'') (s1\<lparr>disk := d2\<rparr>))))))"

section \<open>Drivers and fixtures\<close>

text \<open>
  A sequence of calls of \<^verbatim>\<open>get_available_templates\<close> in one process: each call is made
  on an instance with its own templates directory, with its own category argument, at
  its own state of the storage. Constructing an instance makes one such call, with no
  category.
\<close>

fun get_available_templates_calls ::
  "(filesystem \<times> string \<times> string option) list \<Rightarrow> process
     \<Rightarrow> (error + templates_result) list \<times> process" where
  "get_available_templates_calls [] p = ([], p)"
| "get_available_templates_calls ((fs, dir, category) # rest) p =
     (case get_available_templates fs dir category p of
        (r, p') \<Rightarrow>
          (case get_available_templates_calls rest p' of (rs, p'') \<Rightarrow> (r # rs, p'')))"

text \<open>
  A storage given by its directories (path and entries) and its files. Listing a path
  that is not a directory raises.
\<close>

definition fs_of :: "(string \<times> string list) list \<Rightarrow> string list \<Rightarrow> filesystem" where
  "fs_of dirs files =
     \<lparr>path_exists = (\<lambda>p. p \<in> set (map fst dirs) \<or> p \<in> set files),
      path_isdir = (\<lambda>p. p \<in> set (map fst dirs)),
      listdir = (\<lambda>p. case map_of dirs p of
                        Some entries \<Rightarrow> Inr entries
                      | None \<Rightarrow> Inl (Raised ''No such file or directory''))\<rparr>"

text \<open>
  The directory tree the fixture of tests/test\_template\_manager.py builds (without its
  two last templates): two good templates, one whose helper class has the wrong name and
  one without helper file, and a cache directory of Python beside the categories.
\<close>

definition fixture_fs :: filesystem where
  "fixture_fs = fs_of
     [(''test_templates_dir'', [''resume'', ''cover_letter'', ''__pycache__'']),
      (''test_templates_dir/resume'', [''goodone'', ''badhelpername'', ''missinghelper'']),
      (''test_templates_dir/resume/goodone'', [''helper.py'', ''template.tex'']),
      (''test_templates_dir/resume/badhelpername'', [''helper.py'', ''template.tex'']),
      (''test_templates_dir/resume/missinghelper'', [''template.tex'']),
      (''test_templates_dir/cover_letter'', [''clgood'']),
      (''test_templates_dir/cover_letter/clgood'', [''helper.py'', ''template.tex'']),
      (''test_templates_dir/__pycache__'', [])]
     [''test_templates_dir/resume/goodone/helper.py'',
      ''test_templates_dir/resume/goodone/template.tex'',
      ''test_templates_dir/resume/badhelpername/helper.py'',
      ''test_templates_dir/resume/badhelpername/template.tex'',
      ''test_templates_dir/resume/missinghelper/template.tex'',
      ''test_templates_dir/cover_letter/clgood/helper.py'',
      ''test_templates_dir/cover_letter/clgood/template.tex'']"

definition fixture_catalog :: catalog where
  "fixture_catalog = [(''resume'', [''goodone'', ''badhelpername'']), (''cover_letter'', [''clgood''])]"

text \<open>A storage with nothing in it.\<close>

definition empty_fs :: filesystem where
  "empty_fs = fs_of [] []"

text \<open>
  A helper loader for the fixture: what executing each helper file of the fixture binds.
  A class is represented by its \<^verbatim>\<open>class\<close> line.
\<close>

definition fixture_exec_module :: "string \<Rightarrow> string \<Rightarrow> error + string module" where
  "fixture_exec_module module_name path =
     (if path = ''test_templates_dir/resume/goodone/helper.py''
      then Inr [(''GoodoneResumeHelper'', ''class GoodoneResumeHelper'')]
      else if path = ''test_templates_dir/resume/badhelpername/helper.py''
      then Inr [(''BadNameResume'', ''class BadNameResume'')]
      else if path = ''test_templates_dir/cover_letter/clgood/helper.py''
      then Inr [(''ClgoodCoverLetterHelper'', ''class ClgoodCoverLetterHelper'')]
      else Inl (Raised ''No such file or directory''))"

text \<open>
  An instance built on the fixture, and the process state after its constructor.
\<close>

definition fixture_manager :: template_manager where
  "fixture_manager = \<lparr>templates_dir = ''test_templates_dir'', available_templates = AllTemplates fixture_catalog\<rparr>"

definition fixture_process :: process where
  "fixture_process = \<lparr>cached_templates = Some fixture_catalog, scans = 1\<rparr>"

text \<open>
  A helper module that follows the naming of the specification: it defines
  \<^verbatim>\<open>ClassicCoverLetterRenderer\<close> and imports \<^verbatim>\<open>os\<close>.
\<close>

definition renderer_exec_module :: "string \<Rightarrow> string \<Rightarrow> error + string module" where
  "renderer_exec_module module_name path =
     Inr [(''ClassicCoverLetterRenderer'', ''class ClassicCoverLetterRenderer''), (''os'', ''module os'')]"

text \<open>
  The command line of \<^verbatim>\<open>export_to_pdf\<close> (lines 228-233 of minimalist/helper.py), as a
  function of the scratch directory.
\<close>

definition compile_cmd :: "string \<Rightarrow> string list" where
  "compile_cmd tmpdir =
     [''pdflatex'', ''-interaction=nonstopmode'', ''-output-directory='' @ tmpdir,
      path_join tmpdir ''resume.tex'']"

text \<open>
  Compiler runs: the first pass fails, the second pass fails, the first pass times out,
  both passes succeed without a binary, both passes succeed with one. A compiler that
  does the same on every source is \<open>always run\<close>.
\<close>

definition failing_run :: compiler_run where
  "failing_run = \<lparr>first_pass = Exited 1 ''! Undefined control sequence.'' [],
                   second_pass = Exited 0 [] [],
                   log_file = Some ''l.12 Undefined control sequence'', pdf_file = None\<rparr>"

definition second_failing_run :: compiler_run where
  "second_failing_run = \<lparr>first_pass = Exited 0 [] [],
                   second_pass = Exited 1 ''! Emergency stop.'' [],
                   log_file = None, pdf_file = Some ''%PDF-1.5''\<rparr>"

definition expired_run :: compiler_run where
  "expired_run = \<lparr>first_pass = Expired, second_pass = Exited 0 [] [],
                   log_file = Some ''l.12 Undefined control sequence'', pdf_file = None\<rparr>"

definition silent_run :: compiler_run where
  "silent_run = \<lparr>first_pass = Exited 0 [] [], second_pass = Exited 0 [] [],
                  log_file = Some ''No pages of output.'', pdf_file = None\<rparr>"

definition good_run :: compiler_run where
  "good_run = \<lparr>first_pass = Exited 0 [] [], second_pass = Exited 0 [] [],
                log_file = Some ''Output written on resume.pdf'', pdf_file = Some ''%PDF-1.5''\<rparr>"

definition always :: "compiler_run \<Rightarrow> string \<Rightarrow> compiler_run" where
  "always run src = run"

text \<open>
  A server whose catalog is cached, a scratch path allocator, renderers that write the
  output file and return, or write it and raise, and a request for \<open>Jane Roe\<close>.
\<close>

definition demo_catalog :: catalog where
  "demo_catalog = [(''resume'', [''classic'', ''twocolumn'']), (''cover_letter'', [''classic''])]"

definition demo_server :: server where
  "demo_server = \<lparr>proc = \<lparr>cached_templates = Some demo_catalog, scans = 1\<rparr>,
                   disk = Map.empty, background_tasks = []\<rparr>"

definition demo_mktemp :: "(string \<rightharpoonup> string) \<Rightarrow> string \<Rightarrow> string" where
  "demo_mktemp d suffix = ''/tmp/tmpq7'' @ suffix"

definition write_then_ok :: "string \<Rightarrow> string \<Rightarrow> (string \<rightharpoonup> string) \<Rightarrow> error option \<times> (string \<rightharpoonup> string)" where
  "write_then_ok content output_path d = (None, d(output_path \<mapsto> content))"

definition write_then_raise :: "error \<Rightarrow> string \<Rightarrow> string \<Rightarrow> (string \<rightharpoonup> string) \<Rightarrow> error option \<times> (string \<rightharpoonup> string)" where
  "write_then_raise e content output_path d = (Some e, d(output_path \<mapsto> content))"

definition working_env :: environment where
  "working_env = \<lparr>templates_fs = empty_fs, mktemp = demo_mktemp,
                    render_pdf = (\<lambda>category template_name dat. write_then_ok ''%PDF-1.5''),
                    render_docx = (\<lambda>dat. write_then_ok ''PK'')\<rparr>"

definition failing_env :: environment where
  "failing_env = \<lparr>templates_fs = empty_fs, mktemp = demo_mktemp,
                    render_pdf = (\<lambda>category template_name dat. write_then_raise (CompilationTimedOut 30) []),
                    render_docx = (\<lambda>dat. write_then_raise (Raised ''Error saving DOCX document'') ''PK'')\<rparr>"

definition demo_request :: "document_type \<Rightarrow> string \<Rightarrow> output_format \<Rightarrow> request" where
  "demo_request t name f =
     \<lparr>document_type = t, template = name, format = f, person = ''Jane Roe'',
      data = [(''personalInfo'', PDict [(''name'', PStr ''Jane Roe''), (''email'', PStr ''jane@example.com'')])],
      clean_up = True\<rparr>"

text \<open>
  Data whose experience entry has a single string as \<^verbatim>\<open>details\<close>, and data whose
  entry has a list with one detail that contains an underscore. All their values are
  strings, so Python's \<^verbatim>\<open>str()\<close> is never applied in formatting them; \<open>str_none\<close>
  stands for it there (it is right for \<^verbatim>\<open>None\<close>).
\<close>

definition str_none :: "pyval \<Rightarrow> string" where
  "str_none v = ''None''"

definition string_details_entry :: "(string \<times> pyval) list" where
  "string_details_entry =
     [(''title'', PStr ''Engineer''), (''company'', PStr ''Acme''), (''startDate'', PStr ''2020-01''),
      (''endDate'', PStr ''Present''), (''details'', PStr ''ab'')]"

definition string_details_data :: "(string \<times> pyval) list" where
  "string_details_data =
     [(''personalInfo'', PDict [(''name'', PStr ''Jane Roe''), (''email'', PStr ''jane@example.com'')]),
      (''experience'', PList [PDict string_details_entry])]"

definition escaped_details_data :: "(string \<times> pyval) list" where
  "escaped_details_data =
     [(''personalInfo'', PDict [(''name'', PStr ''Jane Roe''), (''email'', PStr ''jane@example.com'')]),
      (''experience'', PList [PDict [(''company'', PStr ''Acme''), (''details'', PList (map PStr [''a_b'']))]])]"

text \<open>
  The characters the escaper replaces: the keys of the table. Applying a table is the
  loop of \<^const>\<open>escape_text\<close> for any table.
\<close>

definition special :: "char set" where
  "special = fst ` set chars"

abbreviation apply_table :: "(char \<times> string) list \<Rightarrow> string \<Rightarrow> string" where
  "apply_table tbl s \<equiv> fold (\<lambda>(c, e) t. replace_char c e t) tbl s"

section \<open>Facts about the catalog cache\<close>

lemma discover_cached:
  "cached_templates p = Some c \<Longrightarrow> discover_templates fs d p = (Inr c, p)"
  by (simp add: discover_templates_def)

lemma discover_success_caches:
  "discover_templates fs d p = (Inr c, p') \<Longrightarrow> cached_templates p' = Some c"
  by (auto simp: discover_templates_def Let_def split: option.splits if_splits sum.splits)

lemma discover_fresh_scans:
  "cached_templates p = None \<Longrightarrow> discover_templates fs d p = (Inr c, p') \<Longrightarrow> scans p' = scans p + 1"
  by (auto simp: discover_templates_def Let_def split: option.splits if_splits sum.splits)

lemma get_available_templates_None:
  "get_available_templates fs d None p =
     (case discover_templates fs d p of
        (Inl e, p') \<Rightarrow> (Inl e, p')
      | (Inr c, p') \<Rightarrow> (Inr (AllTemplates c), p'))"
  by (simp add: get_available_templates_def split: prod.splits sum.splits)

lemma get_cached_state:
  "cached_templates p = Some c \<Longrightarrow> snd (get_available_templates fs d cat p) = p"
  by (simp add: get_available_templates_def discover_cached split: option.splits)

lemma get_cached_all:
  "cached_templates p = Some c \<Longrightarrow> get_available_templates fs d None p = (Inr (AllTemplates c), p)"
  by (simp add: get_available_templates_None discover_cached)

lemma calls_cached_state:
  "cached_templates p = Some c \<Longrightarrow> snd (get_available_templates_calls calls p) = p"
proof (induction calls)
  case Nil
  then show ?case by simp
next
  case (Cons x calls)
  obtain fs d cat where x: "x = (fs, d, cat)" by (cases x) auto
  obtain r p' where g: "get_available_templates fs d cat p = (r, p')"
    by (cases "get_available_templates fs d cat p") auto
  with get_cached_state[OF Cons.prems, of fs d cat] have "p' = p" by simp
  with Cons x g show ?case by (auto split: prod.splits)
qed

lemma calls_cached_results:
  "cached_templates p = Some c \<Longrightarrow>
   fst (get_available_templates_calls (map (\<lambda>(fs, d). (fs, d, None)) xs) p)
     = replicate (length xs) (Inr (AllTemplates c))"
proof (induction xs)
  case Nil
  then show ?case by simp
next
  case (Cons x xs)
  obtain fs d where x: "x = (fs, d)" by (cases x) auto
  from Cons show ?case by (auto simp: x get_cached_all split: prod.splits)
qed

lemma init_cached:
  "cached_templates p = Some c \<Longrightarrow>
   init fs d p = (Inr \<lparr>templates_dir = d, available_templates = AllTemplates c\<rparr>, p)"
  by (simp add: init_def get_cached_all)

lemma fixture_scan:
  "discover_templates fixture_fs ''test_templates_dir'' \<lparr>cached_templates = None, scans = 0\<rparr>
     = (Inr fixture_catalog, \<lparr>cached_templates = Some fixture_catalog, scans = 1\<rparr>)"
  by (simp add: discover_templates_def fixture_fs_def fs_of_def fixture_catalog_def
        path_join_def startswith_def endswith_def)

section \<open>The claims\<close>

text \<open>
  Claim C1. For every string leaf of the data tree that contains one of the characters
  \<^verbatim>\<open>& % $ # _ { } ~ ^ \ < >\<close>, the escaper leaves no raw, unescaped instance of that
  character in its output, and no replacement made for one character brings back a raw
  instance of another.

  The code does not do this. The table is applied entry by entry, each time to the whole
  text, and the entry for the backslash comes tenth: it rewrites the backslashes the
  entries before it have just written. For the name \<^verbatim>\<open>R&D\<close> the first entry gives
  \<^verbatim>\<open>R\&D\<close> and the tenth turns it into \<^verbatim>\<open>R\textbackslash{}&D\<close>, where the ampersand is
  raw again, after a pair of raw braces.
\<close>

theorem escape_leaves_ampersand_raw:
  "escape_latex_special_chars_recursive
     (PDict [(''personalInfo'', PDict [(''name'', PStr ''R&D'')])])
   = PDict [(''personalInfo'', PDict [(''name'', PStr (''R'' @ bs # ''textbackslash{}&D''))])]"
  by (simp add: escape_text_def chars_def replace_char_def)

text \<open>
  Claim C2. After the first successful discovery scan has filled the catalog cache,
  every later call of \<^verbatim>\<open>get_available_templates\<close>, on the same instance or on a newly
  constructed one, returns the same catalog and scans nothing: one scan of the templates
  directory per process, until the cache is reset.

  A first successful scan is a call of \<^const>\<open>discover_templates\<close> on an empty cache that
  returns a catalog \<open>c\<close>. It has listed the templates directory once and left \<open>c\<close> in the
  cache. From then on, any sequence of calls, whatever their directories, categories and
  storage, leaves the process state as it is (the cache and the count of scans), every
  call without a category returns \<open>c\<close>, and so does every constructor.
\<close>

theorem catalog_scanned_once:
  assumes "cached_templates p0 = None"
      and "discover_templates fs0 d0 p0 = (Inr c, p1)"
  shows "cached_templates p1 = Some c \<and> scans p1 = scans p0 + 1
         \<and> (\<forall>calls. snd (get_available_templates_calls calls p1) = p1)
         \<and> (\<forall>xs. fst (get_available_templates_calls (map (\<lambda>(fs, d). (fs, d, None)) xs) p1)
                    = replicate (length xs) (Inr (AllTemplates c)))
         \<and> (\<forall>fs d. init fs d p1 = (Inr \<lparr>templates_dir = d, available_templates = AllTemplates c\<rparr>, p1))"
proof -
  have c: "cached_templates p1 = Some c" using assms(2) by (rule discover_success_caches)
  have s: "scans p1 = scans p0 + 1" using assms by (rule discover_fresh_scans)
  show ?thesis using c s calls_cached_state[OF c] calls_cached_results[OF c] init_cached[OF c]
    by blast
qed

theorem catalog_scanned_once_witness:
  "cached_templates \<lparr>cached_templates = None, scans = 0\<rparr> = None
   \<and> discover_templates fixture_fs ''test_templates_dir'' \<lparr>cached_templates = None, scans = 0\<rparr>
       = (Inr fixture_catalog, \<lparr>cached_templates = Some fixture_catalog, scans = 1\<rparr>)
   \<and> get_available_templates_calls
        [(fixture_fs, ''test_templates_dir'', None), (empty_fs, ''elsewhere'', None)]
        \<lparr>cached_templates = Some fixture_catalog, scans = 1\<rparr>
       = ([Inr (AllTemplates fixture_catalog), Inr (AllTemplates fixture_catalog)],
          \<lparr>cached_templates = Some fixture_catalog, scans = 1\<rparr>)"
proof -
  let ?p0 = "\<lparr>cached_templates = None, scans = 0\<rparr>"
  let ?p1 = "\<lparr>cached_templates = Some fixture_catalog, scans = 1\<rparr>"
  let ?xs = "[(fixture_fs, ''test_templates_dir''), (empty_fs, ''elsewhere'')]"
  have h1: "cached_templates ?p0 = None" by simp
  have h2: "discover_templates fixture_fs ''test_templates_dir'' ?p0 = (Inr fixture_catalog, ?p1)"
    by (rule fixture_scan)
  from catalog_scanned_once[OF h1 h2]
  have a: "snd (get_available_templates_calls (map (\<lambda>(fs, d). (fs, d, None)) ?xs) ?p1) = ?p1"
   and b: "fst (get_available_templates_calls (map (\<lambda>(fs, d). (fs, d, None)) ?xs) ?p1)
             = replicate (length ?xs) (Inr (AllTemplates fixture_catalog))"
    by blast+
  have "get_available_templates_calls (map (\<lambda>(fs, d). (fs, d, None)) ?xs) ?p1
          = ([Inr (AllTemplates fixture_catalog), Inr (AllTemplates fixture_catalog)], ?p1)"
    using a b by (simp add: prod_eq_iff)
  then show ?thesis using h1 h2 by simp
qed

text \<open>
  Claim C9. The catalog cache belongs to the class, not to the instance's templates
  directory: once an instance has filled it, a new instance with another directory gets
  the cached catalog, with no scan of its directory and no check that it exists, so both
  instances see the same catalog.

  The first constructor runs on an empty cache and succeeds. Any later constructor, for
  any directory on any storage, then returns an instance with that directory and the
  first instance's catalog, and leaves the process state as it is.
\<close>

theorem cache_shared_across_directories:
  assumes "cached_templates p0 = None"
      and "init fs1 d1 p0 = (Inr m1, p1)"
  shows "init fs2 d2 p1 = (Inr \<lparr>templates_dir = d2, available_templates = available_templates m1\<rparr>, p1)"
proof -
  from assms(2) obtain c where d: "discover_templates fs1 d1 p0 = (Inr c, p1)"
    and m: "m1 = \<lparr>templates_dir = d1, available_templates = AllTemplates c\<rparr>"
    by (auto simp: init_def get_available_templates_None split: prod.splits sum.splits)
  from d have "cached_templates p1 = Some c" by (rule discover_success_caches)
  then show ?thesis using m by (simp add: init_cached)
qed

theorem cache_shared_across_directories_witness:
  "cached_templates \<lparr>cached_templates = None, scans = 0\<rparr> = None
   \<and> init fixture_fs ''test_templates_dir'' \<lparr>cached_templates = None, scans = 0\<rparr>
       = (Inr \<lparr>templates_dir = ''test_templates_dir'', available_templates = AllTemplates fixture_catalog\<rparr>,
          \<lparr>cached_templates = Some fixture_catalog, scans = 1\<rparr>)
   \<and> \<not> path_exists empty_fs ''elsewhere''
   \<and> init empty_fs ''elsewhere'' \<lparr>cached_templates = None, scans = 0\<rparr>
       = (Inl (TemplatesDirNotFound ''elsewhere''), \<lparr>cached_templates = None, scans = 0\<rparr>)
   \<and> init empty_fs ''elsewhere'' \<lparr>cached_templates = Some fixture_catalog, scans = 1\<rparr>
       = (Inr \<lparr>templates_dir = ''elsewhere'', available_templates = AllTemplates fixture_catalog\<rparr>,
          \<lparr>cached_templates = Some fixture_catalog, scans = 1\<rparr>)"
proof -
  let ?p0 = "\<lparr>cached_templates = None, scans = 0\<rparr>"
  let ?p1 = "\<lparr>cached_templates = Some fixture_catalog, scans = 1\<rparr>"
  have h1: "cached_templates ?p0 = None" by simp
  have h2: "init fixture_fs ''test_templates_dir'' ?p0
     = (Inr \<lparr>templates_dir = ''test_templates_dir'', available_templates = AllTemplates fixture_catalog\<rparr>, ?p1)"
    by (simp add: init_def get_available_templates_def fixture_scan)
  have e: "\<not> path_exists empty_fs ''elsewhere''" by (simp add: empty_fs_def fs_of_def)
  have f: "init empty_fs ''elsewhere'' ?p0 = (Inl (TemplatesDirNotFound ''elsewhere''), ?p0)"
    by (simp add: init_def get_available_templates_def discover_templates_def e)
  show ?thesis
    using cache_shared_across_directories[OF h1 h2, of empty_fs "''elsewhere''"] h1 h2 e f by simp
qed

section \<open>Facts about loading a template\<close>

lemma load_template_member:
  assumes "discover_templates fs (templates_dir self) p = (Inr c, p')"
      and "map_of c category = Some names"
      and "template_name \<in> set names"
  shows "load_template fs exec_module self category template_name p =
     (case exec_module (category @ ''_'' @ template_name)
             (path_join (path_join (path_join (templates_dir self) category) template_name) ''helper.py'') of
        Inl e \<Rightarrow> (Inl e, p')
      | Inr m \<Rightarrow>
          (case map_of m (expected_class_name category template_name) of
             Some template_class \<Rightarrow> (Inr template_class, p')
           | None \<Rightarrow>
               (Inl (HelperClassNotFound (expected_class_name category template_name)
                       (path_join (path_join (path_join (templates_dir self) category) template_name) ''helper.py'')
                       (filter (\<lambda>name. \<not> startswith name ''_'') (dir_module m))),
                p')))"
  using assms by (simp add: load_template_def Let_def split: sum.splits option.splits)

lemma load_template_not_member:
  assumes "discover_templates fs (templates_dir self) p = (Inr c, p')"
      and "map_of c category = Some names"
      and "template_name \<notin> set names"
  shows "load_template fs exec_module self category template_name p = (Inl (TemplateNotFound template_name), p')"
  using assms by (simp add: load_template_def)

lemma fixture_cached: "discover_templates fs d fixture_process = (Inr fixture_catalog, fixture_process)"
  by (simp add: discover_cached fixture_process_def)

lemma split_char_absent: "sep \<notin> set s \<Longrightarrow> split_char sep s = [s]"
  by (induction s) auto

lemma category_camel_case:
  "(if CHR ''_'' \<in> set category
    then concat (map capitalize (split_char (CHR ''_'') category))
    else capitalize category) = concat (map capitalize (split_char (CHR ''_'') category))"
  by (simp add: split_char_absent)

lemma set_dir_module: "set (dir_module m) = fst ` set m"
  by (simp add: dir_module_def)

section \<open>Facts about the pipeline\<close>

lemma init_result:
  "init fs d p =
     (case discover_templates fs d p of
        (Inl e, p') \<Rightarrow> (Inl e, p')
      | (Inr c, p') \<Rightarrow> (Inr \<lparr>templates_dir = d, available_templates = AllTemplates c\<rparr>, p'))"
  by (simp add: init_def get_available_templates_None split: prod.splits sum.splits)

lemma generate_document_no_catalog:
  assumes "discover_templates (templates_fs env) ''templates'' (proc s) = (Inl e, p')"
  shows "generate_document env req s = (Inl (InternalError e), s\<lparr>proc := p'\<rparr>)"
  using assms by (simp add: generate_document_def init_result)

lemma generate_document_catalog:
  assumes "discover_templates (templates_fs env) ''templates'' (proc s) = (Inr c, p')"
  shows "generate_document env req s =
     (case map_of c (document_type_value (document_type req)) of
        None \<Rightarrow> (Inl (DocumentTypeNotSupported (document_type req) (map fst c)), s\<lparr>proc := p'\<rparr>)
      | Some names \<Rightarrow>
          if template req \<notin> set names
          then (Inl (TemplateNotFoundFor (template req) (document_type req) names), s\<lparr>proc := p'\<rparr>)
          else
            (case format req of
               PDF \<Rightarrow>
                 (case render_pdf env (document_type_value (document_type req)) (template req) (data req)
                         (mktemp env (disk s) ''.pdf'') ((disk s)(mktemp env (disk s) ''.pdf'' \<mapsto> [])) of
                    (Some e, d2) \<Rightarrow>
                      (Inl (PdfGenerationError e),
                       s\<lparr>proc := p', disk := cleanup (mktemp env (disk s) ''.pdf'') d2\<rparr>)
                  | (None, d2) \<Rightarrow>
                      respond req (mktemp env (disk s) ''.pdf'') ''application/pdf''
                        (document_type_value (document_type req) @ ''_''
                           @ (if person req \<noteq> [] then replace_char (CHR '' '') ''_'' (person req) else ''output'')
                           @ ''.pdf'')
                        (s\<lparr>proc := p', disk := d2\<rparr>))
             | DOCX \<Rightarrow>
                 if document_type req = COVER_LETTER then (Inl DocxOnlyForResumes, s\<lparr>proc := p'\<rparr>)
                 else
                   (case render_docx env (data req) (mktemp env (disk s) ''.docx'')
                           ((disk s)(mktemp env (disk s) ''.docx'' \<mapsto> [])) of
                      (Some e, d2) \<Rightarrow>
                        (Inl (DocxGenerationError e),
                         s\<lparr>proc := p', disk := cleanup (mktemp env (disk s) ''.docx'') d2\<rparr>)
                    | (None, d2) \<Rightarrow>
                        respond req (mktemp env (disk s) ''.docx'')
                          ''application/vnd.openxmlformats-officedocument.wordprocessingml.document''
                          (''resume_''
                             @ (if person req \<noteq> [] then replace_char (CHR '' '') ''_'' (person req) else ''output'')
                             @ ''.docx'')
                          (s\<lparr>proc := p', disk := d2\<rparr>))))"
proof -
  have c: "discover_templates (templates_fs env) ''templates'' p' = (Inr c, p')"
    using discover_cached[OF discover_success_caches[OF assms]] .
  show ?thesis
    by (simp add: generate_document_def init_result assms c Let_def
          split: option.splits output_format.splits prod.splits)
qed

lemma cleanup_removes: "cleanup output_path d output_path = None"
  by (auto simp: cleanup_def)

lemma cleanup_elsewhere: "path \<noteq> output_path \<Longrightarrow> cleanup output_path d path = d path"
  by (simp add: cleanup_def)

section \<open>Facts about the escaper\<close>

lemma escape_text_plain [simp]:
  "escape_text ''Engineer'' = ''Engineer''" "escape_text ''Acme'' = ''Acme''"
  "escape_text ''2020-01'' = ''2020-01''" "escape_text ''Present'' = ''Present''"
  "escape_text ''ab'' = ''ab''" "escape_text ''a'' = ''a''" "escape_text ''b'' = ''b''"
  "escape_text ''Jane Roe'' = ''Jane Roe''" "escape_text ''jane@example.com'' = ''jane@example.com''"
  by (simp_all add: escape_text_def chars_def replace_char_def)

lemma set_replace_char:
  "set (replace_char c r s) = (set s - {c}) \<union> (if c \<in> set s then set r else {})"
  by (induction s) (auto simp: replace_char_def)

lemma length_replace_char:
  "r \<noteq> [] \<Longrightarrow> length s \<le> length (replace_char c r s)"
proof (induction s)
  case Nil
  then show ?case by (simp add: replace_char_def)
next
  case (Cons x s)
  then have "length s \<le> length (replace_char c r s)" by simp
  moreover have "replace_char c r (x # s) = (if x = c then r else [x]) @ replace_char c r s"
    by (simp add: replace_char_def)
  moreover have "1 \<le> length (if x = c then r else [x])" using Cons.prems by (cases r) auto
  ultimately show ?case by simp
qed

lemma length_replace_char_strict:
  "c \<in> set s \<Longrightarrow> 2 \<le> length r \<Longrightarrow> length s < length (replace_char c r s)"
proof (induction s)
  case Nil
  then show ?case by simp
next
  case (Cons x s)
  have r: "r \<noteq> []" using Cons.prems(2) by auto
  have eq: "replace_char c r (x # s) = (if x = c then r else [x]) @ replace_char c r s"
    by (simp add: replace_char_def)
  show ?case
  proof (cases "x = c")
    case True
    with length_replace_char[OF r, of s c] Cons.prems(2) eq show ?thesis by simp
  next
    case False
    with Cons have "length s < length (replace_char c r s)" by simp
    with False eq show ?thesis by simp
  qed
qed

lemma apply_table_brings_backslash:
  assumes "distinct (map fst tbl)"
      and "\<forall>(c, r) \<in> set tbl. bs \<in> set r"
      and "bs \<in> set s \<or> (\<exists>c \<in> fst ` set tbl. c \<in> set s)"
  shows "bs \<in> set (apply_table tbl s)"
  using assms
proof (induction tbl arbitrary: s)
  case Nil
  then show ?case by auto
next
  case (Cons a tbl)
  obtain c r where a: "a = (c, r)" by (cases a) auto
  have r: "bs \<in> set r" using Cons.prems(2) a by auto
  have step: "bs \<in> set (replace_char c r s) \<or> (\<exists>c' \<in> fst ` set tbl. c' \<in> set (replace_char c r s))"
  proof (cases "c \<in> set s")
    case True
    with r show ?thesis by (simp add: set_replace_char)
  next
    case False
    from Cons.prems(3) show ?thesis
    proof
      assume "bs \<in> set s"
      with False show ?thesis by (auto simp: set_replace_char)
    next
      assume "\<exists>c' \<in> fst ` set (a # tbl). c' \<in> set s"
      then obtain c' where c': "c' \<in> fst ` set (a # tbl)" "c' \<in> set s" by blast
      with False a have "c' \<in> fst ` set tbl" by auto
      with c' False show ?thesis by (auto simp: set_replace_char)
    qed
  qed
  have "bs \<in> set (apply_table tbl (replace_char c r s))"
    using Cons.IH[of "replace_char c r s"] Cons.prems(1,2) step by auto
  then show ?case by (simp add: a)
qed

lemma apply_table_keeps:
  "x \<in> set s \<Longrightarrow> x \<notin> fst ` set tbl \<Longrightarrow> x \<in> set (apply_table tbl s)"
proof (induction tbl arbitrary: s)
  case Nil
  then show ?case by simp
next
  case (Cons a tbl)
  obtain c r where a: "a = (c, r)" by (cases a) auto
  with Cons.prems have "x \<in> set (replace_char c r s)" by (auto simp: set_replace_char)
  with Cons a show ?case by auto
qed

lemma apply_table_length:
  "\<forall>(c, r) \<in> set tbl. r \<noteq> [] \<Longrightarrow> length s \<le> length (apply_table tbl s)"
proof (induction tbl arbitrary: s)
  case Nil
  then show ?case by simp
next
  case (Cons a tbl)
  obtain c r where a: "a = (c, r)" by (cases a) auto
  with Cons.prems have "length s \<le> length (replace_char c r s)" by (auto intro: length_replace_char)
  moreover have "length (replace_char c r s) \<le> length (apply_table tbl (replace_char c r s))"
    using Cons by auto
  ultimately show ?case by (simp add: a)
qed

lemma escape_text_has_backslash:
  assumes "\<exists>c \<in> set d. c \<in> special"
  shows "bs \<in> set (escape_text d)"
  unfolding escape_text_def
proof (rule apply_table_brings_backslash)
  show "distinct (map fst chars)" by (simp add: chars_def)
  show "\<forall>(c, r) \<in> set chars. bs \<in> set r" by (simp add: chars_def)
  show "bs \<in> set d \<or> (\<exists>c \<in> fst ` set chars. c \<in> set d)" using assms by (auto simp: special_def)
qed

lemma escape_text_grows:
  assumes "bs \<in> set t"
  shows "length t < length (escape_text t)"
proof -
  let ?pre = "take 9 chars"
  let ?post = "drop 10 chars"
  let ?r = "bs # ''textbackslash{}''"
  have split: "chars = ?pre @ (bs, ?r) # ?post" by (simp add: chars_def)
  let ?t1 = "apply_table ?pre t"
  let ?t2 = "replace_char bs ?r ?t1"
  have e: "escape_text t = apply_table ?post ?t2"
    unfolding escape_text_def by (subst split) simp
  have "bs \<in> set ?t1" using assms by (rule apply_table_keeps) (simp add: chars_def)
  then have "length ?t1 < length ?t2" by (rule length_replace_char_strict) simp
  moreover have "length t \<le> length ?t1" by (rule apply_table_length) (simp add: chars_def)
  moreover have "length ?t2 \<le> length (apply_table ?post ?t2)"
    by (rule apply_table_length) (simp add: chars_def)
  ultimately show ?thesis using e by simp
qed

lemma escape_twice_differs:
  assumes "\<exists>c \<in> set d. c \<in> special"
  shows "escape_text (escape_text d) \<noteq> escape_text d"
  using escape_text_grows[OF escape_text_has_backslash[OF assms]] by auto

lemma helper_data_eq:
  "helper_data dat = map (\<lambda>(k, v). (k, escape_latex_special_chars_recursive v)) dat"
  by (simp add: helper_data_def)

lemma dict_get_escaped:
  "dict_get (helper_data kvs) key dflt =
     (case map_of kvs key of Some v \<Rightarrow> escape_latex_special_chars_recursive v | None \<Rightarrow> dflt)"
  by (simp add: helper_data_eq dict_get_def map_of_map split: option.splits)

lemma escape_recursive_dict:
  "escape_latex_special_chars_recursive (PDict kvs) = PDict (helper_data kvs)"
  by (simp add: helper_data_eq)

section \<open>The claims on loading, export and the pipeline\<close>

text \<open>
  Claim C3, as amended. For a category of the catalog, \<^verbatim>\<open>load_template\<close> fails with the
  template-not-found error for every name that is not in the catalog entry of the
  category. For a name that is in the entry it passes the membership check, and it returns
  a class exactly when executing the helper file gives a module that defines the expected
  class name; the class returned is that attribute.
\<close>

theorem load_template_by_membership:
  assumes "discover_templates fs (templates_dir self) p = (Inr c, p')"
      and "map_of c category = Some names"
  shows "(template_name \<notin> set names \<longrightarrow>
            load_template fs exec_module self category template_name p
              = (Inl (TemplateNotFound template_name), p'))
       \<and> (template_name \<in> set names \<longrightarrow>
            (\<forall>cls. fst (load_template fs exec_module self category template_name p) = Inr cls
                \<longleftrightarrow> (\<exists>m. exec_module (category @ ''_'' @ template_name)
                            (path_join (path_join (path_join (templates_dir self) category) template_name)
                               ''helper.py'') = Inr m
                         \<and> map_of m (expected_class_name category template_name) = Some cls)))"
proof (intro conjI impI allI)
  assume "template_name \<notin> set names"
  with assms show "load_template fs exec_module self category template_name p
              = (Inl (TemplateNotFound template_name), p')"
    by (rule load_template_not_member)
next
  fix cls
  assume "template_name \<in> set names"
  note eq = load_template_member[OF assms this, of exec_module]
  show "fst (load_template fs exec_module self category template_name p) = Inr cls
                \<longleftrightarrow> (\<exists>m. exec_module (category @ ''_'' @ template_name)
                            (path_join (path_join (path_join (templates_dir self) category) template_name)
                               ''helper.py'') = Inr m
                         \<and> map_of m (expected_class_name category template_name) = Some cls)"
    unfolding eq by (auto split: sum.splits option.splits)
qed

theorem load_template_by_membership_witness:
  "load_template fixture_fs fixture_exec_module fixture_manager ''resume'' ''nosuchtemplate'' fixture_process
     = (Inl (TemplateNotFound ''nosuchtemplate''), fixture_process)
   \<and> fst (load_template fixture_fs fixture_exec_module fixture_manager ''resume'' ''goodone'' fixture_process)
     = Inr ''class GoodoneResumeHelper''"
proof -
  have d: "discover_templates fixture_fs (templates_dir fixture_manager) fixture_process
             = (Inr fixture_catalog, fixture_process)"
    by (rule fixture_cached)
  have m: "map_of fixture_catalog ''resume'' = Some [''goodone'', ''badhelpername'']"
    by (simp add: fixture_catalog_def)
  have e: "expected_class_name ''resume'' ''goodone'' = ''GoodoneResumeHelper''"
    by code_simp
  have x: "fixture_exec_module (''resume'' @ ''_'' @ ''goodone'')
             (path_join (path_join (path_join (templates_dir fixture_manager) ''resume'') ''goodone'') ''helper.py'')
           = Inr [(''GoodoneResumeHelper'', ''class GoodoneResumeHelper'')]"
    by (simp add: fixture_exec_module_def fixture_manager_def path_join_def startswith_def endswith_def)
  from load_template_by_membership[OF d m, of "''nosuchtemplate''" fixture_exec_module]
  have a: "load_template fixture_fs fixture_exec_module fixture_manager ''resume'' ''nosuchtemplate'' fixture_process
     = (Inl (TemplateNotFound ''nosuchtemplate''), fixture_process)"
    by simp
  from load_template_by_membership[OF d m, of "''goodone''" fixture_exec_module]
  have b: "fst (load_template fixture_fs fixture_exec_module fixture_manager ''resume'' ''goodone'' fixture_process)
     = Inr ''class GoodoneResumeHelper''"
    using x e by simp
  from a b show ?thesis by simp
qed

text \<open>
  Claim C3 as stated (every name of the catalog entry loads) fails on the fixture of the
  tests: \<^verbatim>\<open>badhelpername\<close> is in the catalog entry of \<^verbatim>\<open>resume\<close>, its helper file defines
  \<^verbatim>\<open>BadNameResume\<close>, and \<^verbatim>\<open>load_template\<close> raises the error of line 133, as
  \<^verbatim>\<open>test_load_template_bad_name_convention\<close> expects.
\<close>

theorem load_template_member_fails:
  "map_of fixture_catalog ''resume'' = Some [''goodone'', ''badhelpername'']
   \<and> ''badhelpername'' \<in> set [''goodone'', ''badhelpername'']
   \<and> load_template fixture_fs fixture_exec_module fixture_manager ''resume'' ''badhelpername'' fixture_process
       = (Inl (HelperClassNotFound ''BadhelpernameResumeHelper''
                 ''test_templates_dir/resume/badhelpername/helper.py'' [''BadNameResume'']),
          fixture_process)"
proof -
  have e: "expected_class_name ''resume'' ''badhelpername'' = ''BadhelpernameResumeHelper''"
    by code_simp
  have d: "dir_module [(''BadNameResume'', ''class BadNameResume'')] = [''BadNameResume'']"
    by code_simp
  show ?thesis
    by (simp add: load_template_def fixture_cached fixture_manager_def fixture_catalog_def
          fixture_exec_module_def path_join_def startswith_def endswith_def e d)
qed

text \<open>
  Claim C4, as amended. \<^verbatim>\<open>load_template\<close> binds the class by the fixed naming convention
  Capitalize(template name) + PascalCase(category) + \<^verbatim>\<open>"Helper"\<close>, where PascalCase
  capitalizes the parts of the category between underscores. For a name of the catalog
  whose helper module loads, the attribute of that name is returned when the module has
  it; when it has not, the call fails with the binding error, which carries the expected
  name, the helper path and the attributes of the module that do not start with an
  underscore.
\<close>

theorem load_template_naming_convention:
  "expected_class_name category template_name
     = capitalize template_name @ concat (map capitalize (split_char (CHR ''_'') category)) @ ''Helper''
   \<and> (discover_templates fs (templates_dir self) p = (Inr c, p') \<longrightarrow>
      map_of c category = Some names \<longrightarrow> template_name \<in> set names \<longrightarrow>
      exec_module (category @ ''_'' @ template_name)
        (path_join (path_join (path_join (templates_dir self) category) template_name) ''helper.py'') = Inr m \<longrightarrow>
      (case map_of m (expected_class_name category template_name) of
         Some cls \<Rightarrow> load_template fs exec_module self category template_name p = (Inr cls, p')
       | None \<Rightarrow>
           (\<exists>reported.
              load_template fs exec_module self category template_name p
                = (Inl (HelperClassNotFound (expected_class_name category template_name)
                          (path_join (path_join (path_join (templates_dir self) category) template_name) ''helper.py'')
                          reported), p')
              \<and> set reported = {n \<in> fst ` set m. \<not> startswith n ''_''})))"
proof (intro conjI impI)
  show "expected_class_name category template_name
     = capitalize template_name @ concat (map capitalize (split_char (CHR ''_'') category)) @ ''Helper''"
    by (simp add: expected_class_name_def category_camel_case del: split_char.simps)
next
  assume a: "discover_templates fs (templates_dir self) p = (Inr c, p')"
     "map_of c category = Some names" "template_name \<in> set names"
    and x: "exec_module (category @ ''_'' @ template_name)
        (path_join (path_join (path_join (templates_dir self) category) template_name) ''helper.py'') = Inr m"
  note eq = load_template_member[OF a, of exec_module]
  show "case map_of m (expected_class_name category template_name) of
         Some cls \<Rightarrow> load_template fs exec_module self category template_name p = (Inr cls, p')
       | None \<Rightarrow>
           (\<exists>reported.
              load_template fs exec_module self category template_name p
                = (Inl (HelperClassNotFound (expected_class_name category template_name)
                          (path_join (path_join (path_join (templates_dir self) category) template_name) ''helper.py'')
                          reported), p')
              \<and> set reported = {n \<in> fst ` set m. \<not> startswith n ''_''})"
    unfolding eq x by (auto simp: set_dir_module split: option.splits)
qed

theorem load_template_naming_convention_witness:
  "expected_class_name ''cover_letter'' ''clgood'' = ''ClgoodCoverLetterHelper''
   \<and> load_template fixture_fs fixture_exec_module fixture_manager ''cover_letter'' ''clgood'' fixture_process
       = (Inr ''class ClgoodCoverLetterHelper'', fixture_process)"
proof -
  have d: "discover_templates fixture_fs (templates_dir fixture_manager) fixture_process
             = (Inr fixture_catalog, fixture_process)"
    by (rule fixture_cached)
  have m: "map_of fixture_catalog ''cover_letter'' = Some [''clgood'']"
    by (simp add: fixture_catalog_def)
  have n: "''clgood'' \<in> set [''clgood'']" by simp
  have e: "capitalize ''clgood'' @ concat (map capitalize (split_char (CHR ''_'') ''cover_letter'')) @ ''Helper''
            = ''ClgoodCoverLetterHelper''"
    by code_simp
  have x: "fixture_exec_module (''cover_letter'' @ ''_'' @ ''clgood'')
             (path_join (path_join (path_join (templates_dir fixture_manager) ''cover_letter'') ''clgood'') ''helper.py'')
           = Inr [(''ClgoodCoverLetterHelper'', ''class ClgoodCoverLetterHelper'')]"
    by (simp add: fixture_exec_module_def fixture_manager_def path_join_def startswith_def endswith_def)
  note t = load_template_naming_convention[of "''cover_letter''" "''clgood''" fixture_fs fixture_manager
      fixture_process fixture_catalog fixture_process "[''clgood'']" fixture_exec_module
      "[(''ClgoodCoverLetterHelper'', ''class ClgoodCoverLetterHelper'')]"]
  from t have e': "expected_class_name ''cover_letter'' ''clgood'' = ''ClgoodCoverLetterHelper''"
    using e by simp
  from t d m n x e' show ?thesis by simp
qed

text \<open>
  Claim C4 as stated names the suffix \<^verbatim>\<open>"Renderer"\<close>. The code looks for
  \<^verbatim>\<open>ClassicCoverLetterHelper\<close>: a helper module that defines
  \<^verbatim>\<open>ClassicCoverLetterRenderer\<close> is not bound, and the error lists that name among the
  attributes found.
\<close>

theorem binds_helper_not_renderer:
  "expected_class_name ''cover_letter'' ''classic'' = ''ClassicCoverLetterHelper''
   \<and> load_template empty_fs renderer_exec_module
        \<lparr>templates_dir = ''templates'', available_templates = AllTemplates [(''cover_letter'', [''classic''])]\<rparr>
        ''cover_letter'' ''classic'' \<lparr>cached_templates = Some [(''cover_letter'', [''classic''])], scans = 1\<rparr>
      = (Inl (HelperClassNotFound ''ClassicCoverLetterHelper'' ''templates/cover_letter/classic/helper.py''
                [''ClassicCoverLetterRenderer'', ''os'']),
         \<lparr>cached_templates = Some [(''cover_letter'', [''classic''])], scans = 1\<rparr>)"
proof -
  have e: "expected_class_name ''cover_letter'' ''classic'' = ''ClassicCoverLetterHelper''"
    by code_simp
  have d: "dir_module [(''ClassicCoverLetterRenderer'', ''class ClassicCoverLetterRenderer''), (''os'', ''module os'')]
            = [''ClassicCoverLetterRenderer'', ''os'']"
    by code_simp
  show ?thesis
    by (simp add: load_template_def discover_cached renderer_exec_module_def
          path_join_def startswith_def endswith_def e d)
qed

text \<open>
  Claim C5, as amended. For \<^verbatim>\<open>export_to_pdf\<close> of either renderer: a pass that exits
  with a return code other than zero fails the call with the compilation error, which
  carries command, return code, stdout, stderr and the log read from the scratch
  directory; a pass that times out fails it with the timeout error, which carries the
  timeout and no log; two successful passes without a binary fail it with the
  artifact-missing error, which carries the log. In all these cases the disk is left as
  it was. When the binary exists, the twocolumn renderer moves it to the output path and
  returns the output path.
\<close>

theorem export_to_pdf_outcomes:
  assumes "pdflatex latex_content = run"
  shows "(first_pass run = Exited rc out err \<and> rc \<noteq> 0 \<longrightarrow>
            export_to_pdf r mname pdflatex tmpdir latex_content dsk output_path
              = (Inl (CompilationFailed (compile_cmd tmpdir) rc out err (read_log run)), dsk))
       \<and> (first_pass run = Exited 0 outa erra \<and> second_pass run = Exited rc out err \<and> rc \<noteq> 0 \<longrightarrow>
            export_to_pdf r mname pdflatex tmpdir latex_content dsk output_path
              = (Inl (CompilationFailed (compile_cmd tmpdir) rc out err (read_log run)), dsk))
       \<and> (first_pass run = Expired \<or> (first_pass run = Exited 0 outa erra \<and> second_pass run = Expired) \<longrightarrow>
            export_to_pdf r mname pdflatex tmpdir latex_content dsk output_path
              = (Inl (CompilationTimedOut 30), dsk)
            \<and> carried_log (CompilationTimedOut 30) = None)
       \<and> (first_pass run = Exited 0 outa erra \<and> second_pass run = Exited 0 outb errb
            \<and> pdf_file run = None \<longrightarrow>
            export_to_pdf r mname pdflatex tmpdir latex_content dsk output_path
              = (Inl (PdfNotFound (path_join tmpdir ''resume.pdf'') (read_log run)), dsk))
       \<and> (first_pass run = Exited 0 outa erra \<and> second_pass run = Exited 0 outb errb
            \<and> pdf_file run = Some pdf \<longrightarrow>
            export_to_pdf Twocolumn mname pdflatex tmpdir latex_content dsk output_path
              = (Inr output_path, dsk(output_path \<mapsto> pdf)))"
  using assms
  by (simp add: export_to_pdf_def checked_pass_def compile_cmd_def shutil_bound_def Let_def)

theorem export_to_pdf_outcomes_witness:
  "export_to_pdf Minimalist ''resume_minimalist'' (always failing_run) ''/tmp/tmpk3'' ''source'' Map.empty ''out.pdf''
     = (Inl (CompilationFailed (compile_cmd ''/tmp/tmpk3'') 1 ''! Undefined control sequence.'' []
               ''l.12 Undefined control sequence''), Map.empty)
   \<and> export_to_pdf Twocolumn ''resume_twocolumn'' (always second_failing_run) ''/tmp/tmpk3'' ''source'' Map.empty ''out.pdf''
     = (Inl (CompilationFailed (compile_cmd ''/tmp/tmpk3'') 1 ''! Emergency stop.'' [] []), Map.empty)
   \<and> export_to_pdf Minimalist ''resume_minimalist'' (always expired_run) ''/tmp/tmpk3'' ''source'' Map.empty ''out.pdf''
     = (Inl (CompilationTimedOut 30), Map.empty)
   \<and> export_to_pdf Minimalist ''resume_minimalist'' (always silent_run) ''/tmp/tmpk3'' ''source'' Map.empty ''out.pdf''
     = (Inl (PdfNotFound ''/tmp/tmpk3/resume.pdf'' ''No pages of output.''), Map.empty)
   \<and> export_to_pdf Twocolumn ''resume_twocolumn'' (always good_run) ''/tmp/tmpk3'' ''source'' Map.empty ''out.pdf''
     = (Inr ''out.pdf'', [''out.pdf'' \<mapsto> ''%PDF-1.5''])"
proof -
  have p: "path_join ''/tmp/tmpk3'' ''resume.pdf'' = ''/tmp/tmpk3/resume.pdf''"
    by (simp add: path_join_def startswith_def endswith_def)
  have a: "always failing_run ''source'' = failing_run"
   and b: "always second_failing_run ''source'' = second_failing_run"
   and c: "always expired_run ''source'' = expired_run"
   and d: "always silent_run ''source'' = silent_run"
   and e: "always good_run ''source'' = good_run"
    by (simp_all add: always_def)
  have 1: "export_to_pdf Minimalist ''resume_minimalist'' (always failing_run) ''/tmp/tmpk3'' ''source'' Map.empty ''out.pdf''
     = (Inl (CompilationFailed (compile_cmd ''/tmp/tmpk3'') 1 ''! Undefined control sequence.'' []
               ''l.12 Undefined control sequence''), Map.empty)"
    using export_to_pdf_outcomes[where pdflatex = "always failing_run" and latex_content = "''source''" and run = failing_run and rc = 1 and out = "''! Undefined control sequence.''"
            and err = "[]" and r = Minimalist and mname = "''resume_minimalist''"
            and tmpdir = "''/tmp/tmpk3''" and dsk = Map.empty and output_path = "''out.pdf''", OF a]
    by (simp add: failing_run_def read_log_def)
  have 2: "export_to_pdf Twocolumn ''resume_twocolumn'' (always second_failing_run) ''/tmp/tmpk3'' ''source'' Map.empty ''out.pdf''
     = (Inl (CompilationFailed (compile_cmd ''/tmp/tmpk3'') 1 ''! Emergency stop.'' [] []), Map.empty)"
    using export_to_pdf_outcomes[where pdflatex = "always second_failing_run" and latex_content = "''source''" and run = second_failing_run and rc = 1 and out = "''! Emergency stop.''"
            and err = "[]" and outa = "[]" and erra = "[]" and r = Twocolumn
            and mname = "''resume_twocolumn''"
            and tmpdir = "''/tmp/tmpk3''" and dsk = Map.empty and output_path = "''out.pdf''", OF b]
    by (simp add: second_failing_run_def read_log_def)
  have 3: "export_to_pdf Minimalist ''resume_minimalist'' (always expired_run) ''/tmp/tmpk3'' ''source'' Map.empty ''out.pdf''
     = (Inl (CompilationTimedOut 30), Map.empty)"
    using export_to_pdf_outcomes[where pdflatex = "always expired_run" and latex_content = "''source''" and run = expired_run and r = Minimalist and mname = "''resume_minimalist''"
            and tmpdir = "''/tmp/tmpk3''" and dsk = Map.empty and output_path = "''out.pdf''", OF c]
    by (simp add: expired_run_def)
  have 4: "export_to_pdf Minimalist ''resume_minimalist'' (always silent_run) ''/tmp/tmpk3'' ''source'' Map.empty ''out.pdf''
     = (Inl (PdfNotFound ''/tmp/tmpk3/resume.pdf'' ''No pages of output.''), Map.empty)"
    using export_to_pdf_outcomes[where pdflatex = "always silent_run" and latex_content = "''source''" and run = silent_run and outa = "[]" and erra = "[]" and outb = "[]" and errb = "[]"
            and r = Minimalist and mname = "''resume_minimalist''"
            and tmpdir = "''/tmp/tmpk3''" and dsk = Map.empty and output_path = "''out.pdf''", OF d]
    by (simp add: silent_run_def read_log_def p)
  have 5: "export_to_pdf Twocolumn ''resume_twocolumn'' (always good_run) ''/tmp/tmpk3'' ''source'' Map.empty ''out.pdf''
     = (Inr ''out.pdf'', [''out.pdf'' \<mapsto> ''%PDF-1.5''])"
    using export_to_pdf_outcomes[where pdflatex = "always good_run" and latex_content = "''source''" and run = good_run and outa = "[]" and erra = "[]" and outb = "[]" and errb = "[]"
            and pdf = "''%PDF-1.5''" and mname = "''resume_twocolumn''"
            and tmpdir = "''/tmp/tmpk3''" and dsk = Map.empty and output_path = "''out.pdf''", OF e]
    by (simp add: good_run_def)
  from 1 2 3 4 5 show ?thesis by simp
qed

text \<open>
  Claim C5 as stated (a timeout fails with an error that carries the captured log) fails:
  the log file exists, and the error raised for the timeout has no log in it.
\<close>

theorem export_timeout_carries_no_log:
  "log_file expired_run = Some ''l.12 Undefined control sequence''
   \<and> export_to_pdf Twocolumn ''resume_twocolumn'' (always expired_run) ''/tmp/tmpk3'' ''source'' Map.empty ''out.pdf''
       = (Inl (CompilationTimedOut 30), Map.empty)
   \<and> carried_log (CompilationTimedOut 30) = None"
  by (simp add: export_to_pdf_def checked_pass_def expired_run_def always_def)

text \<open>
  The minimalist renderer, loaded by the template manager, does not reach the move: the
  name \<^verbatim>\<open>shutil\<close> is not bound in its module, and the call raises \<^verbatim>\<open>NameError\<close>
  when the binary exists.
\<close>

lemma minimalist_export_name_error:
  "export_to_pdf Minimalist ''resume_minimalist'' (always good_run) ''/tmp/tmpk3'' ''source'' Map.empty ''out.pdf''
     = (Inl (NameError ''shutil''), Map.empty)"
  by (simp add: export_to_pdf_def checked_pass_def good_run_def shutil_bound_def always_def)

text \<open>
  Claim C6, as amended. Every request with document type cover letter and format DOCX
  fails, and no file is created on disk and no cleanup task is added. When the document
  type and the template are in the catalog, the failure is the unsupported-combination
  error (status 400); otherwise it is the error of the catalog check that fails first.
\<close>

theorem cover_letter_docx_rejected:
  assumes "document_type req = COVER_LETTER"
      and "format req = DOCX"
  shows "(\<exists>e. fst (generate_document env req s) = Inl e)
       \<and> disk (snd (generate_document env req s)) = disk s
       \<and> background_tasks (snd (generate_document env req s)) = background_tasks s
       \<and> (\<forall>c p' names.
            discover_templates (templates_fs env) ''templates'' (proc s) = (Inr c, p') \<longrightarrow>
            map_of c ''cover_letter'' = Some names \<longrightarrow> template req \<in> set names \<longrightarrow>
            fst (generate_document env req s) = Inl DocxOnlyForResumes)"
proof -
  obtain r p' where d: "discover_templates (templates_fs env) ''templates'' (proc s) = (r, p')"
    by (cases "discover_templates (templates_fs env) ''templates'' (proc s)") auto
  show ?thesis
  proof (cases r)
    case (Inl e)
    with d show ?thesis by (simp add: generate_document_no_catalog)
  next
    case (Inr c)
    with d have "discover_templates (templates_fs env) ''templates'' (proc s) = (Inr c, p')" by simp
    from generate_document_catalog[OF this, of req] assms d Inr show ?thesis
      by (auto split: option.splits)
  qed
qed

theorem cover_letter_docx_rejected_witness:
  "document_type (demo_request COVER_LETTER ''classic'' DOCX) = COVER_LETTER
   \<and> format (demo_request COVER_LETTER ''classic'' DOCX) = DOCX
   \<and> fst (generate_document working_env (demo_request COVER_LETTER ''classic'' DOCX) demo_server)
       = Inl DocxOnlyForResumes
   \<and> disk (snd (generate_document working_env (demo_request COVER_LETTER ''classic'' DOCX) demo_server))
       = disk demo_server"
proof -
  have t: "document_type (demo_request COVER_LETTER ''classic'' DOCX) = COVER_LETTER"
   and f: "format (demo_request COVER_LETTER ''classic'' DOCX) = DOCX"
    by (simp_all add: demo_request_def)
  have d: "discover_templates (templates_fs working_env) ''templates'' (proc demo_server)
             = (Inr demo_catalog, proc demo_server)"
    by (simp add: discover_cached demo_server_def)
  have m: "map_of demo_catalog ''cover_letter'' = Some [''classic'']"
    by (simp add: demo_catalog_def)
  have n: "template (demo_request COVER_LETTER ''classic'' DOCX) \<in> set [''classic'']"
    by (simp add: demo_request_def)
  from cover_letter_docx_rejected[OF t f, of working_env demo_server] d m n t f
  show ?thesis by blast
qed

text \<open>
  Claim C6 as stated (every such request fails with the unsupported-combination error)
  fails for a template that is not in the catalog: the template check comes first and
  answers with status 404.
\<close>

theorem cover_letter_docx_unknown_template:
  "document_type (demo_request COVER_LETTER ''nosuch'' DOCX) = COVER_LETTER
   \<and> format (demo_request COVER_LETTER ''nosuch'' DOCX) = DOCX
   \<and> generate_document working_env (demo_request COVER_LETTER ''nosuch'' DOCX) demo_server
       = (Inl (TemplateNotFoundFor ''nosuch'' COVER_LETTER [''classic'']), demo_server)
   \<and> status_code (TemplateNotFoundFor ''nosuch'' COVER_LETTER [''classic'']) = 404
   \<and> TemplateNotFoundFor ''nosuch'' COVER_LETTER [''classic''] \<noteq> DocxOnlyForResumes"
proof -
  have d: "discover_templates (templates_fs working_env) ''templates'' (proc demo_server)
             = (Inr demo_catalog, proc demo_server)"
    by (simp add: discover_cached demo_server_def)
  have s: "demo_server\<lparr>proc := proc demo_server\<rparr> = demo_server" by simp
  show ?thesis
    by (simp add: generate_document_catalog[OF d] demo_request_def demo_catalog_def s)
qed

text \<open>
  Claim C7. For every request whose document type and template pass the catalog checks
  and whose renderer raises after the scratch output path was allocated, on the PDF path
  and on the DOCX path alike, the pipeline answers with the generation error (status
  500), the scratch path does not exist on disk afterwards, and every other path is as the
  renderer left it.
\<close>

theorem renderer_failure_removes_scratch_file:
  assumes "discover_templates (templates_fs env) ''templates'' (proc s) = (Inr c, p')"
      and "map_of c (document_type_value (document_type req)) = Some names"
      and "template req \<in> set names"
  shows "(format req = PDF \<longrightarrow>
            render_pdf env (document_type_value (document_type req)) (template req) (data req)
              (mktemp env (disk s) ''.pdf'') ((disk s)(mktemp env (disk s) ''.pdf'' \<mapsto> [])) = (Some e, d2) \<longrightarrow>
            fst (generate_document env req s) = Inl (PdfGenerationError e)
            \<and> status_code (PdfGenerationError e) = 500
            \<and> mktemp env (disk s) ''.pdf'' \<notin> dom (disk (snd (generate_document env req s)))
            \<and> (\<forall>path. path \<noteq> mktemp env (disk s) ''.pdf'' \<longrightarrow>
                  disk (snd (generate_document env req s)) path = d2 path))
       \<and> (format req = DOCX \<longrightarrow> document_type req = RESUME \<longrightarrow>
            render_docx env (data req)
              (mktemp env (disk s) ''.docx'') ((disk s)(mktemp env (disk s) ''.docx'' \<mapsto> [])) = (Some e, d2) \<longrightarrow>
            fst (generate_document env req s) = Inl (DocxGenerationError e)
            \<and> status_code (DocxGenerationError e) = 500
            \<and> mktemp env (disk s) ''.docx'' \<notin> dom (disk (snd (generate_document env req s)))
            \<and> (\<forall>path. path \<noteq> mktemp env (disk s) ''.docx'' \<longrightarrow>
                  disk (snd (generate_document env req s)) path = d2 path))"
  using assms(2,3)
  by (auto simp: generate_document_catalog[OF assms(1)] cleanup_removes cleanup_elsewhere)

theorem renderer_failure_removes_scratch_file_witness:
  "fst (generate_document failing_env (demo_request RESUME ''classic'' PDF) demo_server)
     = Inl (PdfGenerationError (CompilationTimedOut 30))
   \<and> ''/tmp/tmpq7.pdf'' \<notin> dom (disk (snd (generate_document failing_env (demo_request RESUME ''classic'' PDF) demo_server)))
   \<and> fst (generate_document failing_env (demo_request RESUME ''classic'' DOCX) demo_server)
     = Inl (DocxGenerationError (Raised ''Error saving DOCX document''))
   \<and> ''/tmp/tmpq7.docx'' \<notin> dom (disk (snd (generate_document failing_env (demo_request RESUME ''classic'' DOCX) demo_server)))"
proof -
  have d: "discover_templates (templates_fs failing_env) ''templates'' (proc demo_server)
             = (Inr demo_catalog, proc demo_server)"
    by (simp add: discover_cached demo_server_def)
  have m: "map_of demo_catalog (document_type_value (document_type (demo_request RESUME ''classic'' f)))
             = Some [''classic'', ''twocolumn'']" for f
    by (simp add: demo_catalog_def demo_request_def)
  have n: "template (demo_request RESUME ''classic'' f) \<in> set [''classic'', ''twocolumn'']" for f
    by (simp add: demo_request_def)
  have pdf: "render_pdf failing_env (document_type_value (document_type (demo_request RESUME ''classic'' PDF)))
               (template (demo_request RESUME ''classic'' PDF)) (data (demo_request RESUME ''classic'' PDF))
               (mktemp failing_env (disk demo_server) ''.pdf'')
               ((disk demo_server)(mktemp failing_env (disk demo_server) ''.pdf'' \<mapsto> []))
             = (Some (CompilationTimedOut 30), [''/tmp/tmpq7.pdf'' \<mapsto> []])"
    by (simp add: failing_env_def write_then_raise_def demo_mktemp_def demo_server_def)
  have docx: "render_docx failing_env (data (demo_request RESUME ''classic'' DOCX))
               (mktemp failing_env (disk demo_server) ''.docx'')
               ((disk demo_server)(mktemp failing_env (disk demo_server) ''.docx'' \<mapsto> []))
             = (Some (Raised ''Error saving DOCX document''), [''/tmp/tmpq7.docx'' \<mapsto> ''PK''])"
    by (simp add: failing_env_def write_then_raise_def demo_mktemp_def demo_server_def)
  have p: "mktemp failing_env (disk demo_server) ''.pdf'' = ''/tmp/tmpq7.pdf''"
          "mktemp failing_env (disk demo_server) ''.docx'' = ''/tmp/tmpq7.docx''"
    by (simp_all add: failing_env_def demo_mktemp_def)
  have f: "format (demo_request RESUME ''classic'' PDF) = PDF"
          "format (demo_request RESUME ''classic'' DOCX) = DOCX"
          "document_type (demo_request RESUME ''classic'' DOCX) = RESUME"
    by (simp_all add: demo_request_def)
  from renderer_failure_removes_scratch_file[OF d m n, of PDF "CompilationTimedOut 30" "[''/tmp/tmpq7.pdf'' \<mapsto> []]"]
       pdf f p
  have a: "fst (generate_document failing_env (demo_request RESUME ''classic'' PDF) demo_server)
     = Inl (PdfGenerationError (CompilationTimedOut 30))
   \<and> ''/tmp/tmpq7.pdf'' \<notin> dom (disk (snd (generate_document failing_env (demo_request RESUME ''classic'' PDF) demo_server)))"
    by simp
  from renderer_failure_removes_scratch_file[OF d m n, of DOCX "Raised ''Error saving DOCX document''"
         "[''/tmp/tmpq7.docx'' \<mapsto> ''PK'']"]
       docx f p
  have b: "fst (generate_document failing_env (demo_request RESUME ''classic'' DOCX) demo_server)
     = Inl (DocxGenerationError (Raised ''Error saving DOCX document''))
   \<and> ''/tmp/tmpq7.docx'' \<notin> dom (disk (snd (generate_document failing_env (demo_request RESUME ''classic'' DOCX) demo_server)))"
    by simp
  from a b show ?thesis by simp
qed

section \<open>The claims on details\<close>

text \<open>
  Claim C8. A section whose \<^verbatim>\<open>details\<close> field is a single string is treated by every
  renderer as a sequence of one item, without an error.

  The DOCX generator does so (\<^verbatim>\<open>elif isinstance(details, str)\<close>): one bullet for
  \<^verbatim>\<open>"ab"\<close>. The two LaTeX renderers iterate over the value as it is, and a string
  iterates over its characters: the details \<^verbatim>\<open>"ab"\<close> give the two items \<open>a\<close> and
  \<open>b\<close>.
\<close>

theorem string_details_split_into_characters:
  "minimalist_generate_experience_section str_of (helper_data string_details_data)
     = Inr (join ''\<newline>''
              [bs # ''section*{Experience}'',
               bs # ''experienceentry{Acme}{Engineer}{2020-01 -- Present}{}{\<newline>''
                 @ join ''\<newline>'' [item_prefix @ ''a'', item_prefix @ ''b'']
                 @ ''\<newline>        }''])
   \<and> twocolumn_generate_right_column_content str_of (helper_data string_details_data)
     = Inr (join ''\<newline>\<newline>''
              [bs # ''section*{Experience}'',
               bs # ''experienceentryright{Engineer}{Acme}{2020-01 -- Present}{}{\<newline>''
                 @ join ''\<newline>'' [item_prefix @ ''a'', item_prefix @ ''b'']
                 @ ''\<newline>        }''])
   \<and> format_experience_item str_of (PDict string_details_entry)
     = Inr [AddHeading (PStr ''Acme'') 2,
            AddParagraph (PStr (''Engineer (2020-01'' @ en_dash_sep @ ''Present)'')) None,
            AddParagraph (PStr ''ab'') (Some ''ListBullet''),
            AddParagraph (PStr []) None]"
  by (simp add: minimalist_generate_experience_section_def twocolumn_generate_right_column_content_def
        helper_data_def string_details_data_def string_details_entry_def dict_get_def fmt_def
        py_join_def)

text \<open>
  Claim C10. In the minimalist renderer every experience detail is escaped twice, once
  by the recursive escape of the constructor and once more when the experience section is
  generated, so the text after \<^verbatim>\<open>\item\<close> is the escape of the escaped string; the
  twocolumn renderer inserts the string escaped once. For a detail that contains one of
  the escaped characters the two texts differ.
\<close>

theorem minimalist_escapes_details_twice:
  assumes "map_of dat ''experience'' = Some (PList [PDict exp])"
      and "map_of exp ''details'' = Some (PList (map PStr details))"
  shows "minimalist_generate_experience_section str_of (helper_data dat)
           = Inr (join ''\<newline>''
                    [bs # ''section*{Experience}'',
                     bs # ''experienceentry{'' @ fmt str_of (dict_get (helper_data exp) ''company'' (PStr []))
                       @ ''}{'' @ fmt str_of (dict_get (helper_data exp) ''title'' (PStr []))
                       @ ''}{'' @ fmt str_of (dict_get (helper_data exp) ''startDate'' (PStr []))
                       @ '' -- '' @ fmt str_of (dict_get (helper_data exp) ''endDate'' (PStr ''Present''))
                       @ ''}{'' @ fmt str_of (dict_get (helper_data exp) ''location'' (PStr []))
                       @ ''}{\<newline>''
                       @ join ''\<newline>'' (map (\<lambda>d. item_prefix @ escape_text (escape_text d)) details)
                       @ ''\<newline>        }''])
       \<and> twocolumn_experience_entry str_of (escape_latex_special_chars_recursive (PDict exp))
           = Inr (bs # ''experienceentryright{'' @ fmt str_of (dict_get (helper_data exp) ''title'' (PStr []))
                    @ ''}{'' @ fmt str_of (dict_get (helper_data exp) ''company'' (PStr []))
                    @ ''}{'' @ fmt str_of (dict_get (helper_data exp) ''startDate'' (PStr []))
                    @ '' -- '' @ fmt str_of (dict_get (helper_data exp) ''endDate'' (PStr ''Present''))
                    @ ''}{'' @ fmt str_of (dict_get (helper_data exp) ''location'' (PStr []))
                    @ ''}{\<newline>''
                    @ join ''\<newline>'' (map (\<lambda>d. item_prefix @ escape_text d) details)
                    @ ''\<newline>        }'')
       \<and> (\<forall>d \<in> set details. (\<exists>c \<in> set d. c \<in> special) \<longrightarrow>
             escape_text (escape_text d) \<noteq> escape_text d)"
proof (intro conjI ballI impI)
  have det: "dict_get (helper_data exp) ''details'' (PList []) = PList (map (\<lambda>d. PStr (escape_text d)) details)"
    by (simp add: dict_get_escaped assms(2) comp_def)
  have entry: "minimalist_experience_entry str_of (PDict (helper_data exp))
     = Inr (bs # ''experienceentry{'' @ fmt str_of (dict_get (helper_data exp) ''company'' (PStr []))
                       @ ''}{'' @ fmt str_of (dict_get (helper_data exp) ''title'' (PStr []))
                       @ ''}{'' @ fmt str_of (dict_get (helper_data exp) ''startDate'' (PStr []))
                       @ '' -- '' @ fmt str_of (dict_get (helper_data exp) ''endDate'' (PStr ''Present''))
                       @ ''}{'' @ fmt str_of (dict_get (helper_data exp) ''location'' (PStr []))
                       @ ''}{\<newline>''
                       @ join ''\<newline>'' (map (\<lambda>d. item_prefix @ escape_text (escape_text d)) details)
                       @ ''\<newline>        }'')"
    by (cases "details = []") (simp_all add: det Let_def comp_def fmt_def)
  have exps: "dict_get (helper_data dat) ''experience'' (PList []) = PList [PDict (helper_data exp)]"
    unfolding dict_get_escaped assms(1) by (simp add: helper_data_eq)
  show "minimalist_generate_experience_section str_of (helper_data dat)
           = Inr (join ''\<newline>''
                    [bs # ''section*{Experience}'',
                     bs # ''experienceentry{'' @ fmt str_of (dict_get (helper_data exp) ''company'' (PStr []))
                       @ ''}{'' @ fmt str_of (dict_get (helper_data exp) ''title'' (PStr []))
                       @ ''}{'' @ fmt str_of (dict_get (helper_data exp) ''startDate'' (PStr []))
                       @ '' -- '' @ fmt str_of (dict_get (helper_data exp) ''endDate'' (PStr ''Present''))
                       @ ''}{'' @ fmt str_of (dict_get (helper_data exp) ''location'' (PStr []))
                       @ ''}{\<newline>''
                       @ join ''\<newline>'' (map (\<lambda>d. item_prefix @ escape_text (escape_text d)) details)
                       @ ''\<newline>        }''])"
    unfolding minimalist_generate_experience_section_def exps
    by (simp add: entry del: minimalist_experience_entry.simps)
next
  have det: "dict_get (helper_data exp) ''details'' (PList []) = PList (map (\<lambda>d. PStr (escape_text d)) details)"
    by (simp add: dict_get_escaped assms(2) comp_def)
  show "twocolumn_experience_entry str_of (escape_latex_special_chars_recursive (PDict exp))
           = Inr (bs # ''experienceentryright{'' @ fmt str_of (dict_get (helper_data exp) ''title'' (PStr []))
                    @ ''}{'' @ fmt str_of (dict_get (helper_data exp) ''company'' (PStr []))
                    @ ''}{'' @ fmt str_of (dict_get (helper_data exp) ''startDate'' (PStr []))
                    @ '' -- '' @ fmt str_of (dict_get (helper_data exp) ''endDate'' (PStr ''Present''))
                    @ ''}{'' @ fmt str_of (dict_get (helper_data exp) ''location'' (PStr []))
                    @ ''}{\<newline>''
                    @ join ''\<newline>'' (map (\<lambda>d. item_prefix @ escape_text d) details)
                    @ ''\<newline>        }'')"
    unfolding escape_recursive_dict
    by (simp add: det Let_def comp_def fmt_def)
next
  fix d
  assume "d \<in> set details" "\<exists>c \<in> set d. c \<in> special"
  then show "escape_text (escape_text d) \<noteq> escape_text d"
    by (intro escape_twice_differs)
qed

theorem minimalist_escapes_details_twice_witness:
  "minimalist_generate_experience_section str_none (helper_data escaped_details_data)
     = Inr (join ''\<newline>''
              [bs # ''section*{Experience}'',
               bs # ''experienceentry{Acme}{}{ -- Present}{}{\<newline>''
                 @ item_prefix @ ''a'' @ bs # ''textbackslash{}textbackslash'' @ bs # ''textbackslash{}{''
                 @ bs # ''textbackslash{}}'' @ bs # ''textbackslash{}_b''
                 @ ''\<newline>        }''])
   \<and> escape_text ''a_b'' = ''a'' @ bs # ''textbackslash{}_b''"
proof -
  have e1: "escape_text ''a_b'' = ''a'' @ bs # ''textbackslash{}_b''"
    by (simp add: escape_text_def chars_def replace_char_def)
  have e2: "escape_text (''a'' @ bs # ''textbackslash{}_b'')
              = ''a'' @ bs # ''textbackslash{}textbackslash'' @ bs # ''textbackslash{}{''
                  @ bs # ''textbackslash{}}'' @ bs # ''textbackslash{}_b''"
    by (simp add: escape_text_def chars_def replace_char_def)
  have a: "map_of escaped_details_data ''experience''
            = Some (PList [PDict [(''company'', PStr ''Acme''), (''details'', PList (map PStr [''a_b'']))]])"
    by (simp add: escaped_details_data_def)
  have b: "map_of [(''company'', PStr ''Acme''), (''details'', PList (map PStr [''a_b'']))] ''details''
            = Some (PList (map PStr [''a_b'']))"
    by simp
  from minimalist_escapes_details_twice[OF a b, of str_none] e1 e2
  show ?thesis
    by (simp add: dict_get_escaped fmt_def)
qed

end
